theory Spec2Isabelle
  imports Complex_Main "HOL-Library.Sublist" "HOL-Library.Log_Nat"
begin

section \<open>Analysis documents as JSON values\<close>

text \<open>
  The program works on the dictionary that \<^verbatim>\<open>response.json()\<close> or \<^verbatim>\<open>json.load\<close>
  returns. A JSON value is \<^verbatim>\<open>None\<close>, a \<^verbatim>\<open>bool\<close>, an \<^verbatim>\<open>int\<close>, a \<^verbatim>\<open>float\<close>, a
  \<^verbatim>\<open>str\<close>, a \<^verbatim>\<open>list\<close> or a \<^verbatim>\<open>dict\<close> with string keys. A dictionary keeps
  its insertion order, so it is an association list; lookups go through \<open>map_of\<close>.
  A float is an IEEE 754 binary64 number: \<open>JFloat q\<close> is the float that Python reads
  from the decimal number \<open>q\<close> of the JSON text, or that an operation with the exact
  result \<open>q\<close> returns, which is \<open>q\<close> rounded to 53 significant bits (section on
  floating-point numbers below). A document holds no NaN and no negative zero. Strings
  are byte lists holding UTF-8.
\<close>

datatype json =
    JNull
  | JBool bool
  | JInt int
  | JFloat rat
  | JStr string
  | JList "json list"
  | JDict "(string \<times> json) list"

type_synonym document = "(string \<times> json) list"

text \<open>
  The exceptions the code can raise on a document. \<open>OutsideModel\<close> marks the inputs on
  which the result is decided by a library (pandas, jinja2) in a way this development
  does not model; no theorem below speaks about a result \<open>Inl OutsideModel\<close> as if
  it were the program's.
\<close>

datatype py_error =
  KeyError | TypeError | ValueError | AttributeError | OverflowError | ZeroDivisionError | OutsideModel

definition rbind :: "py_error + 'a \<Rightarrow> ('a \<Rightarrow> py_error + 'b) \<Rightarrow> py_error + 'b" where
  "rbind m f = (case m of Inl e \<Rightarrow> Inl e | Inr x \<Rightarrow> f x)"

fun rmap :: "('a \<Rightarrow> py_error + 'b) \<Rightarrow> 'a list \<Rightarrow> py_error + 'b list" where
  "rmap f [] = Inr []"
| "rmap f (x # xs) = rbind (f x) (\<lambda>y. rbind (rmap f xs) (\<lambda>ys. Inr (y # ys)))"

subsection \<open>Floating-point numbers\<close>

text \<open>
  Rounding to an integer, a tie going to the even one.
\<close>

definition round_half_even :: "rat \<Rightarrow> int" where
  "round_half_even q =
     (let f = \<lfloor>q\<rfloor>; r = q - of_int f
      in if r < 1 / 2 then f else if 1 / 2 < r then f + 1 else if even f then f else f + 1)"

text \<open>
  The binary64 numbers are the multiples \<open>m * 2 ^ e\<close> with \<open>\<bar>m\<bar> < 2 ^ 53\<close> and
  \<open>- 1074 \<le> e\<close>. A positive \<open>x\<close> with \<open>2 ^ e \<le> x < 2 ^ (e + 1)\<close> has the binary
  exponent \<open>e\<close>; the doubles around it are \<open>ulp x\<close> apart, which is \<open>2 ^ (e - 52)\<close>, or
  \<open>2 ^ (- 1074)\<close> below the smallest normal number \<open>2 ^ (- 1022)\<close>. \<open>double x\<close> is the
  multiple of \<open>ulp x\<close> nearest to \<open>x\<close>, a tie going to the even multiple (the rounding
  of \<^verbatim>\<open>float(s)\<close>, of \<^verbatim>\<open>float(n)\<close>, of \<^verbatim>\<open>a / b\<close> on integers and of every
  float operation). When \<open>double x\<close> reaches \<open>2 ^ 1024\<close> the float is an infinity with
  the sign of \<open>x\<close>.
\<close>

definition pow2 :: "int \<Rightarrow> rat" where
  "pow2 e = (if 0 \<le> e then 2 ^ nat e else 1 / 2 ^ nat (- e))"

definition bin_exp :: "rat \<Rightarrow> int" where
  "bin_exp x = (if 1 \<le> x then bitlen \<lfloor>x\<rfloor> - 1 else - bitlen (\<lceil>1 / x\<rceil> - 1))"

definition ulp :: "rat \<Rightarrow> rat" where
  "ulp x = pow2 (max (bin_exp \<bar>x\<bar>) (- 1022) - 52)"

definition double :: "rat \<Rightarrow> rat" where
  "double x = (if x = 0 then 0 else sgn x * (of_int (round_half_even (\<bar>x\<bar> / ulp x)) * ulp x))"

definition finite_double :: "rat \<Rightarrow> bool" where
  "finite_double x = (\<bar>double x\<bar> < 2 ^ 1024)"

subsection \<open>Python's operations on JSON values\<close>

text \<open>Truth value testing: \<^verbatim>\<open>if x:\<close>, \<^verbatim>\<open>not x\<close>, \<^verbatim>\<open>a and b\<close>.\<close>

fun truthy :: "json \<Rightarrow> bool" where
  "truthy JNull = False"
| "truthy (JBool b) = b"
| "truthy (JInt i) = (i \<noteq> 0)"
| "truthy (JFloat q) = (double q \<noteq> 0)"
| "truthy (JStr s) = (s \<noteq> [])"
| "truthy (JList xs) = (xs \<noteq> [])"
| "truthy (JDict kvs) = (kvs \<noteq> [])"

text \<open>\<^verbatim>\<open>k in d\<close> and \<^verbatim>\<open>d.get(k, default)\<close> on a dictionary.\<close>

definition has_key :: "(string \<times> json) list \<Rightarrow> string \<Rightarrow> bool" where
  "has_key d k = (map_of d k \<noteq> None)"

definition dict_get :: "(string \<times> json) list \<Rightarrow> string \<Rightarrow> json \<Rightarrow> json" where
  "dict_get d k dflt = (case map_of d k of None \<Rightarrow> dflt | Some v \<Rightarrow> v)"

text \<open>\<^verbatim>\<open>x.get(k, default)\<close> on any value: only a dictionary has the method.\<close>

fun py_get :: "json \<Rightarrow> string \<Rightarrow> json \<Rightarrow> py_error + json" where
  "py_get (JDict d) k dflt = Inr (dict_get d k dflt)"
| "py_get _ k dflt = Inl AttributeError"

text \<open>
  \<^verbatim>\<open>x[k]\<close> with a string key: a missing key of a dictionary is a \<^verbatim>\<open>KeyError\<close>;
  a string or a list wants an integer index, and the other values are not
  subscriptable (both \<^verbatim>\<open>TypeError\<close>).
\<close>

fun py_getitem :: "json \<Rightarrow> string \<Rightarrow> py_error + json" where
  "py_getitem (JDict d) k = (case map_of d k of None \<Rightarrow> Inl KeyError | Some v \<Rightarrow> Inr v)"
| "py_getitem _ k = Inl TypeError"

text \<open>
  \<^verbatim>\<open>k in x\<close> with a string \<open>k\<close>: key membership for a dictionary, substring test for
  a string, element test for a list, \<^verbatim>\<open>TypeError\<close> for a value that is not iterable.
\<close>

fun py_contains :: "string \<Rightarrow> json \<Rightarrow> py_error + bool" where
  "py_contains k (JDict d) = Inr (has_key d k)"
| "py_contains k (JStr s) = Inr (sublist k s)"
| "py_contains k (JList xs) = Inr (JStr k \<in> set xs)"
| "py_contains k _ = Inl TypeError"

text \<open>
  The characters of a string: a byte that is not a UTF-8 continuation byte starts a
  new character.
\<close>

definition is_cont :: "char \<Rightarrow> bool" where
  "is_cont c = (of_char c div (64::nat) = 2)"

function utf8_chars :: "string \<Rightarrow> string list" where
  "utf8_chars [] = []"
| "utf8_chars (c # cs) = (c # takeWhile is_cont cs) # utf8_chars (dropWhile is_cont cs)"
  by pat_completeness auto
termination
  by (relation "measure length") (auto simp: length_dropWhile_le less_Suc_eq_le)

text \<open>\<^verbatim>\<open>for e in x\<close> and \<^verbatim>\<open>len(x)\<close>.\<close>

fun py_iter :: "json \<Rightarrow> py_error + json list" where
  "py_iter (JList xs) = Inr xs"
| "py_iter (JStr s) = Inr (map JStr (utf8_chars s))"
| "py_iter (JDict d) = Inr (map (\<lambda>kv. JStr (fst kv)) d)"
| "py_iter _ = Inl TypeError"

fun py_len :: "json \<Rightarrow> py_error + int" where
  "py_len (JList xs) = Inr (int (length xs))"
| "py_len (JStr s) = Inr (int (length (utf8_chars s)))"
| "py_len (JDict d) = Inr (int (length d))"
| "py_len _ = Inl TypeError"

text \<open>
  The value of a number: \<^verbatim>\<open>bool\<close> is a subclass of \<^verbatim>\<open>int\<close>, and a float has the
  value of its double (for an infinity, a value beyond the doubles with its sign).
\<close>

fun num_val :: "json \<Rightarrow> rat option" where
  "num_val (JBool b) = Some (if b then 1 else 0)"
| "num_val (JInt i) = Some (of_int i)"
| "num_val (JFloat q) = Some (double q)"
| "num_val _ = None"

text \<open>
  \<^verbatim>\<open>x * 100\<close>: integer arithmetic on \<^verbatim>\<open>bool\<close> and \<^verbatim>\<open>int\<close>, the float product
  on a float (the double of \<open>x\<close> times 100, rounded again when it is read), repetition
  on strings and lists, \<^verbatim>\<open>TypeError\<close> on \<^verbatim>\<open>None\<close> and on a dictionary.
\<close>

fun py_times_100 :: "json \<Rightarrow> py_error + json" where
  "py_times_100 (JBool b) = Inr (JInt ((if b then 1 else 0) * 100))"
| "py_times_100 (JInt i) = Inr (JInt (i * 100))"
| "py_times_100 (JFloat q) = Inr (JFloat (double q * 100))"
| "py_times_100 (JStr s) = Inr (JStr (concat (replicate 100 s)))"
| "py_times_100 (JList xs) = Inr (JList (concat (replicate 100 xs)))"
| "py_times_100 _ = Inl TypeError"

text \<open>\<^verbatim>\<open>x > c\<close> for a float constant \<open>c\<close>: defined between numbers only.\<close>

definition py_gt :: "json \<Rightarrow> rat \<Rightarrow> py_error + bool" where
  "py_gt x c = (case num_val x of None \<Rightarrow> Inl TypeError | Some q \<Rightarrow> Inr (c < q))"

subsection \<open>Rendering numbers\<close>

definition digit_char :: "nat \<Rightarrow> char" where
  "digit_char n = ''0123456789'' ! n"

fun str_nat :: "nat \<Rightarrow> string" where
  "str_nat n = (if n < 10 then [digit_char n] else str_nat (n div 10) @ [digit_char (n mod 10)])"

declare str_nat.simps [simp del]

definition str_int :: "int \<Rightarrow> string" where
  "str_int i = (if i < 0 then CHR ''-'' # str_nat (nat (- i)) else str_nat (nat i))"

text \<open>
  The format specifications \<^verbatim>\<open>.1f\<close> and \<^verbatim>\<open>.2%\<close>: the exact value of the double
  is rounded to the given number of decimals, a tie going to the even digit; the sign
  is that of the value, also when it rounds to zero; an infinity is \<^verbatim>\<open>inf\<close>. The
  specification \<^verbatim>\<open>.2%\<close> first multiplies the float by 100. An \<^verbatim>\<open>int\<close> or
  \<^verbatim>\<open>bool\<close> is converted to a float first, which raises \<^verbatim>\<open>OverflowError\<close> when it
  is beyond the doubles; a \<^verbatim>\<open>str\<close> raises \<^verbatim>\<open>ValueError\<close> (unknown format code), and
  \<^verbatim>\<open>None\<close>, a list and a dictionary raise \<^verbatim>\<open>TypeError\<close> (unsupported format
  string).
\<close>

definition zero_pad :: "nat \<Rightarrow> string \<Rightarrow> string" where
  "zero_pad d s = replicate (d - length s) (CHR ''0'') @ s"

definition fmt_fixed :: "nat \<Rightarrow> rat \<Rightarrow> string" where
  "fmt_fixed d q =
     (let n = nat (round_half_even (\<bar>q\<bar> * 10 ^ d))
      in (if q < 0 then ''-'' else '''') @ str_nat (n div 10 ^ d) @
         (if d = 0 then '''' else CHR ''.'' # zero_pad d (str_nat (n mod 10 ^ d))))"

text \<open>\<open>fmt_float d q\<close> renders the float \<open>JFloat q\<close> with \<open>d\<close> decimals.\<close>

definition fmt_float :: "nat \<Rightarrow> rat \<Rightarrow> string" where
  "fmt_float d q =
     (if finite_double q then fmt_fixed d (double q) else if q < 0 then ''-inf'' else ''inf'')"

text \<open>The float that a numeric format specification renders.\<close>

fun format_arg :: "json \<Rightarrow> py_error + rat" where
  "format_arg (JBool b) = Inr (if b then 1 else 0)"
| "format_arg (JInt i) = (if finite_double (of_int i) then Inr (of_int i) else Inl OverflowError)"
| "format_arg (JFloat q) = Inr q"
| "format_arg (JStr s) = Inl ValueError"
| "format_arg _ = Inl TypeError"

definition py_format_f :: "nat \<Rightarrow> json \<Rightarrow> py_error + string" where
  "py_format_f d x = rbind (format_arg x) (\<lambda>q. Inr (fmt_float d q))"

definition py_format_pct :: "nat \<Rightarrow> json \<Rightarrow> py_error + string" where
  "py_format_pct d x = rbind (format_arg x) (\<lambda>q. Inr (fmt_float d (double q * 100) @ ''%''))"

subsection \<open>\<^verbatim>\<open>str\<close> and \<^verbatim>\<open>repr\<close>\<close>

text \<open>
  \<^verbatim>\<open>str(x)\<close> is what an f-string field without a format specification inserts.
  Two parts of it belong to the interpreter and are parameters here: \<open>float_repr q\<close>,
  the shortest decimal text that reads back as the float \<open>JFloat q\<close>, and \<open>str_repr\<close>, the quoted
  and escaped form of a string (used for strings inside a list or dictionary). Every
  theorem below holds for all choices of the two.
\<close>

record py_env =
  float_repr :: "rat \<Rightarrow> string"
  str_repr :: "string \<Rightarrow> string"

fun join :: "string \<Rightarrow> string list \<Rightarrow> string" where
  "join sep [] = []"
| "join sep [x] = x"
| "join sep (x # y # ys) = x @ sep @ join sep (y # ys)"

fun py_repr :: "py_env \<Rightarrow> json \<Rightarrow> string" where
  "py_repr env JNull = ''None''"
| "py_repr env (JBool b) = (if b then ''True'' else ''False'')"
| "py_repr env (JInt i) = str_int i"
| "py_repr env (JFloat q) = float_repr env q"
| "py_repr env (JStr s) = str_repr env s"
| "py_repr env (JList xs) = ''['' @ join '', '' (map (py_repr env) xs) @ '']''"
| "py_repr env (JDict d) =
     ''{'' @ join '', '' (map (\<lambda>kv. str_repr env (fst kv) @ '': '' @ py_repr env (snd kv)) d) @ ''}''"

fun py_str :: "py_env \<Rightarrow> json \<Rightarrow> string" where
  "py_str env (JStr s) = s"
| "py_str env x = py_repr env x"

section \<open>The plain-text summary: \<^verbatim>\<open>format_results\<close> (script.py)\<close>

text \<open>
  The function appends to the local list \<open>output\<close> in five consecutive blocks and
  joins the list at the end. Each block is a function from the list so far to the
  extended list; an exception leaves the function at once, so the list built so far
  is lost and the result is the error.
\<close>

definition fr_classification :: "py_env \<Rightarrow> json \<Rightarrow> string list \<Rightarrow> py_error + string list" where
  "fr_classification env ai_data output =
     rbind (py_contains ''classification'' ai_data) (\<lambda>present.
       if present then
         rbind (py_getitem ai_data ''classification'') (\<lambda>c1.
         rbind (py_get c1 ''AI'' (JStr ''N/A'')) (\<lambda>a.
         rbind (py_getitem ai_data ''classification'') (\<lambda>c2.
         rbind (py_get c2 ''Original'' (JStr ''N/A'')) (\<lambda>b.
           Inr (output @
             [''\<newline>AI Detection Results:'',
              ''AI Probability: '' @ py_str env a,
              ''Original Probability: '' @ py_str env b])))))
       else Inr output)"

definition fr_confidence :: "json \<Rightarrow> string list \<Rightarrow> py_error + string list" where
  "fr_confidence ai_data output =
     rbind (py_contains ''confidence'' ai_data) (\<lambda>present.
       if present then
         rbind (py_getitem ai_data ''confidence'') (\<lambda>c1.
         rbind (py_get c1 ''AI'' (JStr ''N/A'')) (\<lambda>a.
         rbind (py_format_pct 2 a) (\<lambda>sa.
         rbind (py_getitem ai_data ''confidence'') (\<lambda>c2.
         rbind (py_get c2 ''Original'' (JStr ''N/A'')) (\<lambda>b.
         rbind (py_format_pct 2 b) (\<lambda>sb.
           Inr (output @
             [''\<newline>Confidence Scores:'',
              ''AI Confidence: '' @ sa,
              ''Original Confidence: '' @ sb])))))))
       else Inr output)"

definition fr_ai :: "py_env \<Rightarrow> document \<Rightarrow> string list \<Rightarrow> py_error + string list" where
  "fr_ai env result output =
     (if has_key result ''ai'' \<and> truthy (dict_get result ''ai'' JNull) then
        (let ai_data = dict_get result ''ai'' JNull
         in rbind (fr_classification env ai_data output) (fr_confidence ai_data))
      else Inr output)"

definition fr_match :: "py_env \<Rightarrow> json \<Rightarrow> py_error + string" where
  "fr_match env m =
     rbind (py_get m ''url'' (JStr ''N/A'')) (\<lambda>u.
     rbind (py_get m ''score'' (JStr ''N/A'')) (\<lambda>s.
       Inr (''- '' @ py_str env u @ '': '' @ py_str env s @ ''% match'')))"

definition fr_plagiarism :: "py_env \<Rightarrow> document \<Rightarrow> string list \<Rightarrow> py_error + string list" where
  "fr_plagiarism env result output =
     (if has_key result ''plagiarism'' \<and> truthy (dict_get result ''plagiarism'' JNull) then
        (let plag_data = dict_get result ''plagiarism'' JNull;
             output = output @ [''\<newline>Plagiarism Results:'']
         in rbind (py_contains ''score'' plag_data) (\<lambda>has_score.
            rbind (if has_score then
                     rbind (py_getitem plag_data ''score'') (\<lambda>s.
                       Inr (output @ [''Plagiarism Score: '' @ py_str env s @ ''%'']))
                   else Inr output) (\<lambda>output.
            rbind (py_contains ''matches'' plag_data) (\<lambda>has_matches.
            rbind (if has_matches then rbind (py_getitem plag_data ''matches'') (\<lambda>ms. Inr (truthy ms))
                   else Inr False) (\<lambda>nonempty.
              if nonempty then
                rbind (py_getitem plag_data ''matches'') (\<lambda>ms.
                rbind (py_iter ms) (\<lambda>elems.
                rbind (rmap (fr_match env) elems) (\<lambda>lines.
                  Inr (output @ [''\<newline>Plagiarism Matches:''] @ lines))))
              else Inr output)))))
      else Inr output)"

definition fr_text_stats :: "py_env \<Rightarrow> json \<Rightarrow> string list \<Rightarrow> py_error + string list" where
  "fr_text_stats env read_data output =
     rbind (py_contains ''textStats'' read_data) (\<lambda>present.
       if present then
         rbind (py_getitem read_data ''textStats'') (\<lambda>stats.
         rbind (py_get stats ''uniqueWordCount'' (JStr ''N/A'')) (\<lambda>w.
         rbind (py_get stats ''sentenceCount'' (JStr ''N/A'')) (\<lambda>s.
         rbind (py_get stats ''averageSpeakingTime'' (JStr ''N/A'')) (\<lambda>sp.
         rbind (py_get stats ''averageReadingTime'' (JStr ''N/A'')) (\<lambda>rd.
           Inr (output @
             [''Word Count: '' @ py_str env w,
              ''Sentence Count: '' @ py_str env s,
              ''Average Speaking Time: '' @ py_str env sp @ '' minutes'',
              ''Average Reading Time: '' @ py_str env rd @ '' minutes'']))))))
       else Inr output)"

definition fr_scores :: "py_env \<Rightarrow> json \<Rightarrow> string list \<Rightarrow> py_error + string list" where
  "fr_scores env read_data output =
     rbind (py_contains ''readability'' read_data) (\<lambda>present.
       if present then
         rbind (py_getitem read_data ''readability'') (\<lambda>scores.
         rbind (py_get scores ''fleschReadingEase'' (JStr ''N/A'')) (\<lambda>e.
         rbind (py_get scores ''fleschGradeLevel'' (JStr ''N/A'')) (\<lambda>g.
           Inr (output @
             [''\<newline>Readability Scores:'',
              ''Flesch Reading Ease: '' @ py_str env e,
              ''Flesch-Kincaid Grade Level: '' @ py_str env g]))))
       else Inr output)"

definition fr_readability :: "py_env \<Rightarrow> document \<Rightarrow> string list \<Rightarrow> py_error + string list" where
  "fr_readability env result output =
     (if has_key result ''readability'' \<and> truthy (dict_get result ''readability'' JNull) then
        (let read_data = dict_get result ''readability'' JNull;
             output = output @ [''\<newline>Readability Metrics:'']
         in rbind (fr_text_stats env read_data output) (fr_scores env read_data))
      else Inr output)"

definition fr_grammar :: "py_env \<Rightarrow> document \<Rightarrow> string list \<Rightarrow> py_error + string list" where
  "fr_grammar env result output =
     (if has_key result ''grammarSpelling'' \<and> truthy (dict_get result ''grammarSpelling'' JNull) then
        (let g = dict_get result ''grammarSpelling'' JNull
         in rbind (py_contains ''error'' g) (\<lambda>present.
              if present then
                rbind (py_getitem g ''error'') (\<lambda>e.
                  Inr (output @ [''\<newline>Grammar & Spelling: '' @ py_str env e]))
              else Inr output))
      else Inr output)"

definition fr_credits :: "py_env \<Rightarrow> document \<Rightarrow> string list \<Rightarrow> py_error + string list" where
  "fr_credits env result output =
     (if has_key result ''credits'' \<and> truthy (dict_get result ''credits'' JNull) then
        (let credits = dict_get result ''credits'' JNull
         in rbind (py_get credits ''used'' (JStr ''N/A'')) (\<lambda>u.
            rbind (py_get credits ''base_credits'' (JStr ''N/A'')) (\<lambda>b.
            rbind (py_get credits ''subscription_credits'' (JStr ''N/A'')) (\<lambda>s.
              Inr (output @
                [''\<newline>Credits Information:'',
                 ''Used Credits: '' @ py_str env u,
                 ''Base Credits: '' @ py_str env b,
                 ''Subscription Credits: '' @ py_str env s])))))
      else Inr output)"

definition format_results :: "py_env \<Rightarrow> document \<Rightarrow> py_error + string" where
  "format_results env result =
     (if has_key result ''error'' then
        Inr (''Error: '' @ py_str env (dict_get result ''error'' JNull))
      else
        rbind (fr_ai env result []) (\<lambda>output.
        rbind (fr_plagiarism env result output) (\<lambda>output.
        rbind (fr_readability env result output) (\<lambda>output.
        rbind (fr_grammar env result output) (\<lambda>output.
        rbind (fr_credits env result output) (\<lambda>output.
          Inr (if output \<noteq> [] then join ''\<newline>'' output else ''No results available'')))))))"

section \<open>Derived metrics and insights: \<^verbatim>\<open>OriginalityVisualizer\<close> (visualize.py)\<close>

text \<open>
  The visualizer holds the document in \<^verbatim>\<open>self.data\<close>; every method reads it and
  none writes it, so each method is a function of the document.
\<close>

subsection \<open>\<^verbatim>\<open>analyze_sentence_complexity\<close>\<close>

text \<open>\<^verbatim>\<open>sum(1 for s in sentences if s.get(k, default))\<close>\<close>

definition count_get :: "string \<Rightarrow> json \<Rightarrow> json \<Rightarrow> py_error + int" where
  "count_get k dflt sentences =
     rbind (py_iter sentences) (\<lambda>ss.
     rbind (rmap (\<lambda>s. py_get s k dflt) ss) (\<lambda>vs.
       Inr (int (length (filter truthy vs)))))"

definition analyze_sentence_complexity :: "document \<Rightarrow> py_error + (string \<times> int) list" where
  "analyze_sentence_complexity data =
     (if \<not> truthy (dict_get data ''readability'' JNull) then Inr []
      else
        rbind (py_get (dict_get data ''readability'' JNull) ''sentences'' (JList [])) (\<lambda>sentences.
        rbind (py_len sentences) (\<lambda>total.
        rbind (count_get ''isHard'' (JBool False) sentences) (\<lambda>hard.
        rbind (count_get ''isVeryHard'' (JBool False) sentences) (\<lambda>very_hard.
        rbind (count_get ''wordsOver13Chars'' (JList []) sentences) (\<lambda>long.
        rbind (count_get ''wordsOver4Syllables'' (JList []) sentences) (\<lambda>cplx.
          Inr [(''total_sentences'', total),
               (''hard_sentences'', hard),
               (''very_hard_sentences'', very_hard),
               (''sentences_with_long_words'', long),
               (''sentences_with_complex_words'', cplx)])))))))"

subsection \<open>\<^verbatim>\<open>generate_detailed_insights\<close>\<close>

text \<open>
  The three header lines, byte for byte as the source file has them: each starts with
  the bytes of a pictograph, and the second and third with a line feed before it.
\<close>

definition ai_header :: string where
  "ai_header =
     [CHR 0xC3, CHR 0xB0, CHR 0xC5, CHR 0xB8, CHR 0xC2, CHR 0xA4, CHR 0xE2, CHR 0x80, CHR 0x93]
     @ '' AI Detection:''"

definition readability_header :: string where
  "readability_header =
     [CHR 0x0A, CHR 0xC3, CHR 0xB0, CHR 0xC5, CHR 0xB8, CHR 0xE2, CHR 0x80, CHR 0x9C, CHR 0xC5, CHR 0xA1]
     @ '' Readability Analysis:''"

definition plagiarism_header :: string where
  "plagiarism_header =
     [CHR 0x0A, CHR 0xC3, CHR 0xB0, CHR 0xC5, CHR 0xB8, CHR 0xE2, CHR 0x80, CHR 0x9D]
     @ '' Plagiarism Check:''"

text \<open>\<^verbatim>\<open>d[k]\<close> on the dictionary that \<^verbatim>\<open>analyze_sentence_complexity\<close> returned.\<close>

definition lookup :: "(string \<times> 'v) list \<Rightarrow> string \<Rightarrow> py_error + 'v" where
  "lookup d k = (case map_of d k of None \<Rightarrow> Inl KeyError | Some v \<Rightarrow> Inr v)"

text \<open>\<^verbatim>\<open>b['result'].get('fake', 0) > 0.75\<close>\<close>

definition high_ai :: "json \<Rightarrow> py_error + bool" where
  "high_ai b =
     rbind (py_getitem b ''result'') (\<lambda>r.
     rbind (py_get r ''fake'' (JInt 0)) (\<lambda>f.
       py_gt f (3 / 4)))"

definition gdi_ai :: "document \<Rightarrow> string list \<Rightarrow> py_error + string list" where
  "gdi_ai data insights =
     (if truthy (dict_get data ''ai'' JNull) then
        rbind (py_getitem (dict_get data ''ai'' JNull) ''confidence'') (\<lambda>ai_conf.
        rbind (py_get ai_conf ''AI'' (JInt 0)) (\<lambda>a.
        rbind (py_times_100 a) (\<lambda>ai_prob.
        rbind (py_format_f 1 ai_prob) (\<lambda>shown.
        let insights = insights @ [ai_header, ''  - Overall AI Probability: '' @ shown @ ''%'']
        in rbind (py_get (dict_get data ''ai'' JNull) ''blocks'' (JList [])) (\<lambda>blocks.
             if truthy blocks then
               rbind (py_iter blocks) (\<lambda>bs.
               rbind (rmap high_ai bs) (\<lambda>flags.
                 Inr (insights @
                   [''  - '' @ str_int (int (length (filter (\<lambda>f. f) flags))) @
                    '' text blocks show strong AI characteristics''])))
             else Inr insights)))))
      else Inr insights)"

text \<open>
  \<^verbatim>\<open>a / b\<close> on integers: the quotient rounded to a float, \<^verbatim>\<open>OverflowError\<close> when
  it is beyond the doubles.
\<close>

definition int_truediv :: "int \<Rightarrow> int \<Rightarrow> py_error + rat" where
  "int_truediv a b =
     (if b = 0 then Inl ZeroDivisionError
      else if finite_double (of_int a / of_int b) then Inr (of_int a / of_int b)
      else Inl OverflowError)"

text \<open>The last part of the readability block, from \<^verbatim>\<open>complexity = ...\<close> on.\<close>

definition gdi_complexity :: "document \<Rightarrow> string list \<Rightarrow> py_error + string list" where
  "gdi_complexity data insights =
     rbind (analyze_sentence_complexity data) (\<lambda>complexity.
       if complexity \<noteq> [] then
         rbind (lookup complexity ''total_sentences'') (\<lambda>total.
         rbind (lookup complexity ''hard_sentences'') (\<lambda>hard.
         rbind (lookup complexity ''very_hard_sentences'') (\<lambda>very_hard.
           if total > 0 then
             rbind (int_truediv (hard + very_hard) total) (\<lambda>ratio.
               let hard_percent = double ratio * 100
               in Inr (insights @
                    [''  - '' @ fmt_float 1 hard_percent @ ''% of sentences are complex'']))
           else Inr insights)))
       else Inr insights)"

definition gdi_readability :: "document \<Rightarrow> string list \<Rightarrow> py_error + string list" where
  "gdi_readability data insights =
     (if truthy (dict_get data ''readability'' JNull) then
        rbind (py_getitem (dict_get data ''readability'' JNull) ''readability'') (\<lambda>metrics.
        rbind (py_getitem (dict_get data ''readability'' JNull) ''textStats'') (\<lambda>stats.
        rbind (py_get metrics ''fleschReadingEase'' (JInt 0)) (\<lambda>ease.
        rbind (py_format_f 1 ease) (\<lambda>ease_shown.
        rbind (py_get stats ''averageReadingTime'' (JInt 0)) (\<lambda>time.
        rbind (py_format_f 1 time) (\<lambda>time_shown.
          gdi_complexity data
            (insights @
               [readability_header,
                ''  - Flesch Reading Ease: '' @ ease_shown,
                ''  - Average Reading Time: '' @ time_shown @ '' minutes''])))))))
      else Inr insights)"

definition gdi_plagiarism :: "py_env \<Rightarrow> document \<Rightarrow> string list \<Rightarrow> py_error + string list" where
  "gdi_plagiarism env data insights =
     (if truthy (dict_get data ''plagiarism'' JNull) then
        (let plag_data = dict_get data ''plagiarism'' JNull
         in rbind (py_get plag_data ''score'' (JInt 0)) (\<lambda>score.
            let insights = insights @
                  [plagiarism_header, ''  - Overall Score: '' @ py_str env score @ ''%'']
            in rbind (py_get plag_data ''matches'' JNull) (\<lambda>ms.
                 if truthy ms then
                   rbind (py_getitem plag_data ''matches'') (\<lambda>matches.
                   rbind (py_len matches) (\<lambda>n.
                     Inr (insights @ [''  - Found '' @ str_int n @ '' potential matches''])))
                 else Inr insights)))
      else Inr insights)"

definition generate_detailed_insights :: "py_env \<Rightarrow> document \<Rightarrow> py_error + string list" where
  "generate_detailed_insights env data =
     rbind (gdi_ai data []) (\<lambda>insights.
     rbind (gdi_readability data insights) (\<lambda>insights.
     gdi_plagiarism env data insights))"

subsection \<open>\<^verbatim>\<open>plot_plagiarism_metrics\<close>\<close>

text \<open>
  \<^verbatim>\<open>metrics[k] = v\<close> on an insertion-ordered dictionary: an existing key keeps its
  place and takes the new value, a new key goes to the end.
\<close>

fun dict_set :: "(string \<times> 'v) list \<Rightarrow> string \<Rightarrow> 'v \<Rightarrow> (string \<times> 'v) list" where
  "dict_set [] k v = [(k, v)]"
| "dict_set ((k', v') # d) k v = (if k' = k then (k, v) # d else (k', v') # dict_set d k v)"

text \<open>
  The loop \<^verbatim>\<open>for i, match in enumerate(plag_data['matches'], 1)\<close>, from index \<open>i\<close>
  on.
\<close>

fun add_matches :: "nat \<Rightarrow> json list \<Rightarrow> (string \<times> json) list \<Rightarrow> py_error + (string \<times> json) list" where
  "add_matches i [] metrics = Inr metrics"
| "add_matches i (m # ms) metrics =
     rbind (py_get m ''score'' (JInt 0)) (\<lambda>s.
       add_matches (Suc i) ms (dict_set metrics (''Match '' @ str_nat i) s))"

text \<open>
  The dictionary \<open>metrics\<close> as it is when the bar chart is built, or \<open>None\<close> where
  the function returns \<^verbatim>\<open>None\<close>.
\<close>

definition plagiarism_metrics :: "document \<Rightarrow> py_error + (string \<times> json) list option" where
  "plagiarism_metrics data =
     (if \<not> truthy (dict_get data ''plagiarism'' JNull) then Inr None
      else
        (let plag_data = dict_get data ''plagiarism'' JNull
         in rbind (py_get plag_data ''score'' (JInt 0)) (\<lambda>score.
            let metrics = [(''Overall Score'', score)]
            in rbind (py_get plag_data ''matches'' JNull) (\<lambda>ms.
                 if truthy ms then
                   rbind (py_getitem plag_data ''matches'') (\<lambda>matches.
                   rbind (py_iter matches) (\<lambda>elems.
                   rbind (add_matches 1 elems metrics) (\<lambda>metrics.
                     Inr (Some metrics))))
                 else Inr (Some metrics)))))"

text \<open>
  The figure is a single bar trace: the keys of \<open>metrics\<close> on the x axis, its values
  on the y axis, and \<^verbatim>\<open>f'{v}%'\<close> as the label of each bar.
\<close>

record bar_figure =
  bar_x :: "string list"
  bar_y :: "json list"
  bar_text :: "string list"

definition plot_plagiarism_metrics :: "py_env \<Rightarrow> document \<Rightarrow> py_error + bar_figure option" where
  "plot_plagiarism_metrics env data =
     rbind (plagiarism_metrics data) (\<lambda>r.
       case r of
         None \<Rightarrow> Inr None
       | Some metrics \<Rightarrow>
           Inr (Some \<lparr>bar_x = map fst metrics,
                      bar_y = map snd metrics,
                      bar_text = map (\<lambda>v. py_str env v @ ''%'') (map snd metrics)\<rparr>))"

subsection \<open>\<^verbatim>\<open>analyze_ai_blocks\<close>\<close>

text \<open>
  \<^verbatim>\<open>pd.DataFrame(blocks)\<close> on a list of dictionaries makes one row per dictionary
  and one column per key that occurs; a row without the key holds NaN there. The frame
  is modelled by its rows, a cell by \<open>Some\<close> of the value or \<open>None\<close> for NaN. A
  \<open>blocks\<close> value that is not a list of dictionaries is outside the model.
\<close>

fun as_dict :: "json \<Rightarrow> (string \<times> json) list option" where
  "as_dict (JDict d) = Some d"
| "as_dict _ = None"

fun as_rows :: "json \<Rightarrow> (string \<times> json) list list option" where
  "as_rows (JList xs) =
     (if list_all (\<lambda>x. as_dict x \<noteq> None) xs then Some (map (\<lambda>x. the (as_dict x)) xs) else None)"
| "as_rows _ = None"

text \<open>\<^verbatim>\<open>df[c]\<close>: the column, or \<^verbatim>\<open>KeyError\<close> when no row has the key.\<close>

definition column :: "(string \<times> json) list list \<Rightarrow> string \<Rightarrow> py_error + json option list" where
  "column rows c =
     (if list_ex (\<lambda>r. has_key r c) rows then Inr (map (\<lambda>r. map_of r c) rows) else Inl KeyError)"

text \<open>
  \<^verbatim>\<open>lambda x: x.get(k, 0) * 100\<close> on a cell: NaN is a float and has no
  \<^verbatim>\<open>get\<close>.
\<close>

definition score_of :: "string \<Rightarrow> json option \<Rightarrow> py_error + json" where
  "score_of k cell =
     (case cell of
        None \<Rightarrow> Inl AttributeError
      | Some x \<Rightarrow> rbind (py_get x k (JInt 0)) (\<lambda>v. py_times_100 v))"

text \<open>
  The column that \<^verbatim>\<open>apply\<close> returns takes its type from the values: integers and
  floats together make a column of floats, in which each integer is converted to a
  float; a column of integers only, or with a value that is not a number, keeps the
  values as they are. An integer beyond 64 bits in a column with floats is outside the
  model.
\<close>

fun is_float :: "json \<Rightarrow> bool" where
  "is_float (JFloat q) = True"
| "is_float _ = False"

fun is_int64_or_float :: "json \<Rightarrow> bool" where
  "is_int64_or_float (JFloat q) = True"
| "is_int64_or_float (JInt i) = (- (2 ^ 63) \<le> i \<and> i < 2 ^ 63)"
| "is_int64_or_float _ = False"

fun is_number :: "json \<Rightarrow> bool" where
  "is_number (JFloat q) = True"
| "is_number (JInt i) = True"
| "is_number _ = False"

fun to_float :: "json \<Rightarrow> json" where
  "to_float (JInt i) = JFloat (of_int i)"
| "to_float x = x"

definition frame_column :: "json list \<Rightarrow> py_error + json list" where
  "frame_column vs =
     (if list_all is_number vs \<and> list_ex is_float vs then
        (if list_all is_int64_or_float vs then Inr (map to_float vs) else Inl OutsideModel)
      else Inr vs)"

text \<open>
  The result is the frame restricted to the columns \<^verbatim>\<open>text\<close>, \<^verbatim>\<open>ai_score\<close>,
  \<^verbatim>\<open>human_score\<close>, one triple per row; the empty frame has no rows.
\<close>

definition analyze_ai_blocks :: "document \<Rightarrow> py_error + (json option \<times> json \<times> json) list" where
  "analyze_ai_blocks data =
     (if \<not> truthy (dict_get data ''ai'' JNull) then Inr []
      else
        rbind (py_get (dict_get data ''ai'' JNull) ''blocks'' JNull) (\<lambda>b.
          if \<not> truthy b then Inr []
          else
            rbind (py_getitem (dict_get data ''ai'' JNull) ''blocks'') (\<lambda>blocks.
              case as_rows blocks of
                None \<Rightarrow> Inl OutsideModel
              | Some rows \<Rightarrow>
                  rbind (column rows ''result'') (\<lambda>res.
                  rbind (rmap (score_of ''fake'') res) (\<lambda>ai_values.
                  rbind (frame_column ai_values) (\<lambda>ai_score.
                  rbind (column rows ''result'') (\<lambda>res'.
                  rbind (rmap (score_of ''real'') res') (\<lambda>human_values.
                  rbind (frame_column human_values) (\<lambda>human_score.
                  rbind (column rows ''text'') (\<lambda>text.
                    Inr (zip text (zip ai_score human_score))))))))))))"

subsection \<open>\<^verbatim>\<open>plot_readability_timeline\<close>\<close>

text \<open>
  \<^verbatim>\<open>values.rolling(window=w, min_periods=m).mean()\<close> as pandas computes it for a
  fixed window ending at the current position: it keeps the sum and the number of the
  observations in the window; at position \<open>i\<close> it first drops the values that leave
  the window (those from the previous start \<open>i - w\<close> up to the new start
  \<open>i + 1 - w\<close>), then adds the value at \<open>i\<close>, and emits the mean when at least \<open>m\<close>
  observations (and at least one) are in the window, NaN (\<open>None\<close>) otherwise. The
  values here are small integers (flags and list lengths), whose sums a float holds
  without rounding; a mean is given as the quotient itself, of which the float in the
  figure is the rounding.
\<close>

definition roll_step :: "nat \<Rightarrow> nat \<Rightarrow> rat list \<Rightarrow> nat \<Rightarrow> rat \<times> nat \<times> rat option list \<Rightarrow> rat \<times> nat \<times> rat option list" where
  "roll_step w m vs i st =
     (case st of (sum_x, nobs, out) \<Rightarrow>
        (let removed = map (\<lambda>j. vs ! j) [i - w ..< Suc i - w];
             sum_x = sum_x - sum_list removed + vs ! i;
             nobs = nobs - length removed + 1
         in (sum_x, nobs,
             out @ [if m \<le> nobs \<and> 0 < nobs then Some (sum_x / of_nat nobs) else None])))"

definition rolling_mean :: "nat \<Rightarrow> nat \<Rightarrow> rat list \<Rightarrow> rat option list" where
  "rolling_mean w m vs = snd (snd (fold (roll_step w m vs) [0 ..< length vs] (0, 0, [])))"

text \<open>
  \<^verbatim>\<open>astype(int)\<close> on a column of booleans or integers, and \<^verbatim>\<open>.str.len()\<close> on a
  column of lists; columns with other cells are outside the model.
\<close>

fun int_cell :: "json option \<Rightarrow> py_error + rat" where
  "int_cell (Some (JBool b)) = Inr (if b then 1 else 0)"
| "int_cell (Some (JInt i)) = Inr (of_int i)"
| "int_cell _ = Inl OutsideModel"

fun len_cell :: "json option \<Rightarrow> py_error + rat" where
  "len_cell (Some (JList xs)) = Inr (of_nat (length xs))"
| "len_cell _ = Inl OutsideModel"

text \<open>
  The figure has three traces, in the order of the dictionary \<open>metrics\<close>; a trace
  plots its values against the positions \<open>0, 1, ...\<close>, so it is given by the values.
\<close>

record timeline =
  complexity :: "rat option list"
  long_words :: "rat option list"
  complex_words :: "rat option list"

definition plot_readability_timeline :: "document \<Rightarrow> py_error + timeline option" where
  "plot_readability_timeline data =
     (if \<not> truthy (dict_get data ''readability'' JNull) then Inr None
      else
        rbind (py_get (dict_get data ''readability'' JNull) ''sentences'' JNull) (\<lambda>s.
          if \<not> truthy s then Inr None
          else
            rbind (py_getitem (dict_get data ''readability'' JNull) ''sentences'') (\<lambda>sentences.
              case as_rows sentences of
                None \<Rightarrow> Inl OutsideModel
              | Some rows \<Rightarrow>
                  (let window_size = 5
                   in rbind (column rows ''isHard'') (\<lambda>c1.
                      rbind (rmap int_cell c1) (\<lambda>hard.
                      rbind (column rows ''isVeryHard'') (\<lambda>c2.
                      rbind (rmap int_cell c2) (\<lambda>very_hard.
                      rbind (column rows ''wordsOver13Chars'') (\<lambda>c3.
                      rbind (rmap len_cell c3) (\<lambda>long.
                      rbind (column rows ''wordsOver4Syllables'') (\<lambda>c4.
                      rbind (rmap len_cell c4) (\<lambda>cplx.
                        Inr (Some
                          \<lparr>complexity = rolling_mean window_size 1 (map2 (+) hard very_hard),
                           long_words = rolling_mean window_size 1 long,
                           complex_words = rolling_mean window_size 1 cplx\<rparr>)))))))))))))"

section \<open>The HTML report: \<^verbatim>\<open>export_to_html\<close> (visualize.py)\<close>





















text \<open>
  One choice of the two interpreter functions, for evaluating the definitions at
  concrete documents: it is Python's for a float written with exactly one decimal and
  for a string of plain letters and digits.
\<close>

definition sample_env :: py_env where
  "sample_env = \<lparr>float_repr = fmt_fixed 1, str_repr = (\<lambda>s. [CHR 0x27] @ s @ [CHR 0x27])\<rparr>"

section \<open>Notions used in the statements\<close>

text \<open>The lines of the insight sequence that the claims speak about.\<close>

definition block_count_line :: "int \<Rightarrow> string" where
  "block_count_line n = ''  - '' @ str_int n @ '' text blocks show strong AI characteristics''"

text \<open>
  The percentage of complex sentences as the code computes it in floating point: the
  quotient of the integers, rounded, times 100; \<open>complex_line p\<close> shows the float
  \<open>JFloat p\<close> to one decimal.
\<close>

definition percent_complex :: "int \<Rightarrow> int \<Rightarrow> int \<Rightarrow> rat" where
  "percent_complex h v t = double (rat_of_int (h + v) / rat_of_int t) * 100"

definition complex_line :: "rat \<Rightarrow> string" where
  "complex_line p = ''  - '' @ fmt_float 1 p @ ''% of sentences are complex''"

definition is_complex_line :: "string \<Rightarrow> bool" where
  "is_complex_line l = suffix ''% of sentences are complex'' l"

definition reports :: "string \<Rightarrow> py_error + string list \<Rightarrow> bool" where
  "reports l r = (case r of Inl e \<Rightarrow> False | Inr xs \<Rightarrow> l \<in> set xs)"

text \<open>
  A sentence record or text block is a dictionary. \<open>field_truthy k dflt s\<close> says that
  the field \<open>k\<close> of the sentence \<open>s\<close> (or \<open>dflt\<close>, when it has none) is truthy, and
  \<open>count_field\<close> counts such sentences.
\<close>

definition is_dict :: "json \<Rightarrow> bool" where
  "is_dict x = (as_dict x \<noteq> None)"

definition field_truthy :: "string \<Rightarrow> json \<Rightarrow> json \<Rightarrow> bool" where
  "field_truthy k dflt s = (case s of JDict d \<Rightarrow> truthy (dict_get d k dflt) | _ \<Rightarrow> False)"

definition count_field :: "string \<Rightarrow> json \<Rightarrow> json list \<Rightarrow> int" where
  "count_field k dflt ss = int (length (filter (field_truthy k dflt) ss))"

definition complexity_summary :: "int \<Rightarrow> int \<Rightarrow> int \<Rightarrow> int \<Rightarrow> int \<Rightarrow> (string \<times> int) list" where
  "complexity_summary t h v l c =
     [(''total_sentences'', t),
      (''hard_sentences'', h),
      (''very_hard_sentences'', v),
      (''sentences_with_long_words'', l),
      (''sentences_with_complex_words'', c)]"

text \<open>
  The \<^verbatim>\<open>fake\<close> probability of a block, \<^verbatim>\<open>result.fake\<close> with the default 0, when
  the block has a \<^verbatim>\<open>result\<close> dictionary and the value is a number (for a float, the
  value of the double); a block is high-AI when it is above 0.75.
\<close>

definition block_fake :: "json \<Rightarrow> rat option" where
  "block_fake b =
     (case b of
        JDict d \<Rightarrow>
          (case map_of d ''result'' of
             Some (JDict r) \<Rightarrow> num_val (dict_get r ''fake'' (JInt 0))
           | _ \<Rightarrow> None)
      | _ \<Rightarrow> None)"

definition is_high_ai :: "json \<Rightarrow> bool" where
  "is_high_ai b = (case block_fake b of Some f \<Rightarrow> 3 / 4 < f | None \<Rightarrow> False)"

text \<open>The score of a match, \<^verbatim>\<open>match.get('score', 0)\<close>, for a match that is a dictionary.\<close>

definition match_score :: "json \<Rightarrow> json" where
  "match_score m = (case m of JDict d \<Rightarrow> dict_get d ''score'' (JInt 0) | _ \<Rightarrow> JInt 0)"

text \<open>
  A text block of the data model has a \<^verbatim>\<open>text\<close> and a \<^verbatim>\<open>result\<close> dictionary whose
  \<^verbatim>\<open>fake\<close> and \<^verbatim>\<open>real\<close> entries (0 when missing) are numbers from 0 to 1.
\<close>

definition block_real :: "json \<Rightarrow> rat option" where
  "block_real b =
     (case b of
        JDict d \<Rightarrow>
          (case map_of d ''result'' of
             Some (JDict r) \<Rightarrow> num_val (dict_get r ''real'' (JInt 0))
           | _ \<Rightarrow> None)
      | _ \<Rightarrow> None)"

definition block_text :: "json \<Rightarrow> json option" where
  "block_text b = (case b of JDict d \<Rightarrow> map_of d ''text'' | _ \<Rightarrow> None)"

definition probability :: "rat option \<Rightarrow> bool" where
  "probability p = (case p of None \<Rightarrow> False | Some f \<Rightarrow> 0 \<le> f \<and> f \<le> 1)"

text \<open>
  The cell that \<^verbatim>\<open>x * 100\<close> yields for a probability \<open>x\<close> with the value \<open>f\<close>: the
  float product, or the integer 0 or 100 when \<open>x\<close> is the integer 0 or 1.
\<close>

definition product_cell :: "rat \<Rightarrow> json \<Rightarrow> bool" where
  "product_cell f a = (a = JFloat (f * 100) \<or> (f = 0 \<and> a = JInt 0) \<or> (f = 1 \<and> a = JInt 100))"

definition text_block :: "json \<Rightarrow> bool" where
  "text_block b =
     (block_text b \<noteq> None \<and> probability (block_fake b) \<and> probability (block_real b))"

text \<open>
  The simple moving average in the spec's words: the value at position \<open>i\<close> is the
  average of the values at the positions of the window that ends at \<open>i\<close>, that is of
  the last \<open>w\<close> positions up to \<open>i\<close>, or of all \<open>i + 1\<close> of them near the start.
\<close>

definition window_mean :: "nat \<Rightarrow> rat list \<Rightarrow> nat \<Rightarrow> rat" where
  "window_mean w vs i =
     (let js = [Suc i - w ..< Suc i] in sum_list (map (\<lambda>j. vs ! j) js) / of_nat (length js))"

definition sma :: "nat \<Rightarrow> rat list \<Rightarrow> rat list" where
  "sma w vs = map (window_mean w vs) [0 ..< length vs]"

text \<open>
  A sentence record of the data model: a dictionary with the two boolean flags and the
  two word lists. Its complexity is the number of flags set (0, 1 or 2).
\<close>

fun bool_cell :: "json option \<Rightarrow> bool" where
  "bool_cell (Some (JBool b)) = True"
| "bool_cell _ = False"

fun list_cell :: "json option \<Rightarrow> bool" where
  "list_cell (Some (JList xs)) = True"
| "list_cell _ = False"

definition sentence_record :: "json \<Rightarrow> bool" where
  "sentence_record s =
     (case s of
        JDict d \<Rightarrow>
          bool_cell (map_of d ''isHard'') \<and> bool_cell (map_of d ''isVeryHard'') \<and>
          list_cell (map_of d ''wordsOver13Chars'') \<and> list_cell (map_of d ''wordsOver4Syllables'')
      | _ \<Rightarrow> False)"

definition flag :: "string \<Rightarrow> json \<Rightarrow> rat" where
  "flag k s = (if field_truthy k (JBool False) s then 1 else 0)"

definition sentence_complexity :: "json \<Rightarrow> rat" where
  "sentence_complexity s = flag ''isHard'' s + flag ''isVeryHard'' s"

definition word_count :: "string \<Rightarrow> json \<Rightarrow> rat" where
  "word_count k s =
     (case s of
        JDict d \<Rightarrow> (case map_of d k of Some (JList ws) \<Rightarrow> of_nat (length ws) | _ \<Rightarrow> 0)
      | _ \<Rightarrow> 0)"



section \<open>Properties\<close>

subsection \<open>Basic facts\<close>

lemma rbind_Inl [simp]: "rbind (Inl e) f = Inl e"
  by (simp add: rbind_def)

lemma rbind_Inr [simp]: "rbind (Inr x) f = f x"
  by (simp add: rbind_def)

lemma rbind_eq_Inr: "rbind m f = Inr y \<longleftrightarrow> (\<exists>x. m = Inr x \<and> f x = Inr y)"
  by (cases m) simp_all

lemma str_int_small: "str_int 0 = ''0''" "str_int 1 = ''1''" "str_int 2 = ''2''" "str_int 12 = ''12''"
  by code_simp+

lemma fmt_0_Suc: "fmt_fixed (Suc 0) 0 = ''0.0''"
proof -
  have "fmt_fixed 1 0 = ''0.0''"
    by code_simp
  then show ?thesis
    by simp
qed

lemma py_format_f_simps [simp]:
  "py_format_f d (JStr s) = Inl ValueError"
  "py_format_f d (JFloat q) = Inr (fmt_float d q)"
  "py_format_f d (JBool b) = Inr (fmt_float d (if b then 1 else 0))"
  "py_format_f d (JInt i) =
     (if finite_double (of_int i) then Inr (fmt_float d (of_int i)) else Inl OverflowError)"
  "py_format_f d JNull = Inl TypeError"
  "py_format_f d (JList xs) = Inl TypeError"
  "py_format_f d (JDict kvs) = Inl TypeError"
  by (simp_all add: py_format_f_def)

lemma py_format_pct_simps [simp]:
  "py_format_pct d (JStr s) = Inl ValueError"
  "py_format_pct d (JFloat q) = Inr (fmt_float d (double q * 100) @ ''%'')"
  "py_format_pct d JNull = Inl TypeError"
  "py_format_pct d (JList xs) = Inl TypeError"
  "py_format_pct d (JDict kvs) = Inl TypeError"
  by (simp_all add: py_format_pct_def)

lemmas fr_defs = fr_ai_def fr_plagiarism_def fr_readability_def fr_grammar_def fr_credits_def

subsection \<open>Floating-point facts\<close>

lemma double_0 [simp]: "double 0 = 0"
  by (simp add: double_def)

lemma finite_double_0 [simp]: "finite_double 0"
  by (simp add: finite_double_def)

lemma pow2_pos: "0 < pow2 e"
  by (simp add: pow2_def)

lemma ulp_pos: "0 < ulp x"
  by (simp add: ulp_def pow2_pos)

lemma round_half_even_nonneg: "0 \<le> q \<Longrightarrow> 0 \<le> round_half_even q"
  by (auto simp: round_half_even_def Let_def)

lemma round_half_even_le:
  assumes "q \<le> of_int n"
  shows "round_half_even q \<le> n"
proof -
  have f: "\<lfloor>q\<rfloor> \<le> n"
    using assms by (simp add: floor_le_iff)
  show ?thesis
  proof (cases "q = of_int \<lfloor>q\<rfloor>")
    case True
    then have "q - of_int \<lfloor>q\<rfloor> = 0"
      by simp
    then have "round_half_even q = \<lfloor>q\<rfloor>"
      by (simp add: round_half_even_def Let_def)
    with f show ?thesis
      by simp
  next
    case False
    then have "of_int \<lfloor>q\<rfloor> < q"
      using of_int_floor_le [of q] by linarith
    with assms have "rat_of_int \<lfloor>q\<rfloor> < of_int n"
      by linarith
    then have "\<lfloor>q\<rfloor> + 1 \<le> n"
      by simp
    with f show ?thesis
      by (auto simp: round_half_even_def Let_def)
  qed
qed

lemma double_nonneg:
  assumes "0 \<le> x"
  shows "0 \<le> double x"
proof (cases "x = 0")
  case True
  then show ?thesis by simp
next
  case False
  with assms have "0 < x"
    by simp
  then have "0 \<le> \<bar>x\<bar> / ulp x"
    using ulp_pos [of x] by simp
  from round_half_even_nonneg [OF this] ulp_pos [of x] \<open>0 < x\<close> show ?thesis
    by (simp add: double_def)
qed

text \<open>
  A number up to 100 has a binary exponent of at most 6, so 100 is a multiple of the
  distance of the doubles around it, and rounding does not pass 100.
\<close>

lemma bin_exp_le_6:
  assumes "0 < x" "x \<le> 100"
  shows "bin_exp x \<le> 6"
proof (cases "1 \<le> x")
  case True
  from assms(2) have "\<lfloor>x\<rfloor> \<le> 100"
    by (simp add: floor_le_iff)
  then have "\<lfloor>x\<rfloor> < 2 ^ 7"
    by simp
  moreover from True have "0 < \<lfloor>x\<rfloor>"
    by simp
  ultimately have "bitlen \<lfloor>x\<rfloor> \<le> 7"
    using bitlen_bounds [of "\<lfloor>x\<rfloor>"] bitlen_le_iff_power [of "\<lfloor>x\<rfloor>" 7] by simp
  with True show ?thesis
    by (simp add: bin_exp_def)
next
  case False
  then show ?thesis
    using bitlen_nonneg [of "\<lceil>1 / x\<rceil> - 1"] by (simp add: bin_exp_def)
qed

lemma double_le_100:
  assumes "0 \<le> x" "x \<le> 100"
  shows "double x \<le> 100"
proof (cases "x = 0")
  case True
  then show ?thesis by simp
next
  case False
  with assms have p: "0 < x"
    by simp
  define k where "k = nat (52 - max (bin_exp x) (- 1022))"
  from bin_exp_le_6 [OF p assms(2)] have u: "ulp x = 1 / 2 ^ k"
    using p by (simp add: ulp_def pow2_def k_def)
  have "\<bar>x\<bar> / ulp x \<le> of_int (100 * 2 ^ k)"
    using assms(2) p by (simp add: u)
  from round_half_even_le [OF this]
  have "rat_of_int (round_half_even (\<bar>x\<bar> / ulp x)) \<le> rat_of_int (100 * 2 ^ k)"
    by (simp only: of_int_le_iff)
  then have "of_int (round_half_even (\<bar>x\<bar> / ulp x)) * ulp x \<le> rat_of_int (100 * 2 ^ k) * ulp x"
    using ulp_pos [of x] by (simp only: mult_le_cancel_right) simp
  also have "rat_of_int (100 * 2 ^ k) * ulp x = 100"
    by (simp add: u)
  finally show ?thesis
    using p by (simp add: double_def)
qed

lemma double_half: "double (1 / 2) = 1 / 2"
  by code_simp

lemma double_50: "double 50 = 50"
  by code_simp

lemma double_100: "double 100 = 100"
  by code_simp

lemma finite_double_small: "finite_double 1" "finite_double (1 / 2)" "finite_double 50"
  by code_simp+

lemma fmt_float_0_Suc: "fmt_float (Suc 0) 0 = ''0.0''"
  by (simp add: fmt_float_def fmt_0_Suc)

lemma fmt_float_50_Suc: "fmt_float (Suc 0) 50 = ''50.0''"
proof -
  have "fmt_float 1 50 = ''50.0''"
    by code_simp
  then show ?thesis
    by simp
qed

lemma fmt_float_82_Suc: "fmt_float (Suc 0) (double (41 / 50) * 100) = ''82.0''"
proof -
  have "fmt_float 1 (double (82 / 100) * 100) = ''82.0''"
    by code_simp
  then show ?thesis
    by simp
qed

subsection \<open>The plain-text summary\<close>

text \<open>
  Claim C9. For a document with no \<^verbatim>\<open>error\<close> key in which none of the sections
  \<^verbatim>\<open>ai\<close>, \<^verbatim>\<open>plagiarism\<close>, \<^verbatim>\<open>readability\<close>, \<^verbatim>\<open>grammarSpelling\<close>, \<^verbatim>\<open>credits\<close> is
  present with a truthy value, \<^verbatim>\<open>format_results\<close> returns exactly the string
  \<^verbatim>\<open>No results available\<close> (so never the empty string).
\<close>

theorem format_results_no_results:
  assumes "\<not> has_key result ''error''"
    and "\<forall>k \<in> set [''ai'', ''plagiarism'', ''readability'', ''grammarSpelling'', ''credits''].
           \<not> (has_key result k \<and> truthy (dict_get result k JNull))"
  shows "format_results env result = Inr ''No results available''"
  using assms by (auto simp add: format_results_def fr_defs)

theorem format_results_no_results_witness:
  "\<not> has_key [(''properties'', JDict [(''title'', JStr ''Scan'')]), (''ai'', JDict [])] ''error'' \<and>
   list_all
     (\<lambda>k. \<not> (has_key [(''properties'', JDict [(''title'', JStr ''Scan'')]), (''ai'', JDict [])] k \<and>
         truthy (dict_get [(''properties'', JDict [(''title'', JStr ''Scan'')]), (''ai'', JDict [])] k JNull)))
     [''ai'', ''plagiarism'', ''readability'', ''grammarSpelling'', ''credits''] \<and>
   format_results sample_env [(''properties'', JDict [(''title'', JStr ''Scan'')]), (''ai'', JDict [])]
     = Inr ''No results available''"
proof -
  let ?d = "[(''properties'', JDict [(''title'', JStr ''Scan'')]), (''ai'', JDict [])]"
  have h1: "\<not> has_key ?d ''error''"
    by (simp add: has_key_def)
  have h2: "\<forall>k \<in> set [''ai'', ''plagiarism'', ''readability'', ''grammarSpelling'', ''credits''].
              \<not> (has_key ?d k \<and> truthy (dict_get ?d k JNull))"
    by (simp add: has_key_def dict_get_def)
  from format_results_no_results [OF h1 h2, of sample_env] h1 h2 show ?thesis
    by (simp add: list_all_iff)
qed

subsection \<open>Missing and malformed fields\<close>

text \<open>
  Claim C2 says that the formatting and insight functions never raise when an inner
  field of a present section is missing or has a wrong type. The code raises:
  \<^verbatim>\<open>format_results\<close> formats the default \<^verbatim>\<open>'N/A'\<close> of a missing \<^verbatim>\<open>ai.confidence.AI\<close>
  with \<^verbatim>\<open>.2%\<close> (\<^verbatim>\<open>ValueError\<close>), and \<^verbatim>\<open>generate_detailed_insights\<close> subscripts
  \<^verbatim>\<open>ai.confidence\<close>, \<^verbatim>\<open>readability.readability\<close> and \<^verbatim>\<open>readability.textStats\<close> without
  the membership test that \<^verbatim>\<open>format_results\<close> makes (\<^verbatim>\<open>KeyError\<close>), and formats a
  string-valued \<^verbatim>\<open>ai.confidence.AI\<close> with \<^verbatim>\<open>.1f\<close> (\<^verbatim>\<open>ValueError\<close>).
\<close>

theorem missing_field_raises:
  "format_results env [(''ai'', JDict [(''confidence'', JDict [])])] = Inl ValueError \<and>
   generate_detailed_insights env
     [(''ai'', JDict [(''classification'', JDict [(''AI'', JFloat (9 / 10))])])] = Inl KeyError \<and>
   generate_detailed_insights env
     [(''ai'', JDict [(''confidence'', JDict [(''AI'', JStr ''high'')])])] = Inl ValueError \<and>
   generate_detailed_insights env [(''readability'', JDict [(''textStats'', JDict [])])] = Inl KeyError \<and>
   generate_detailed_insights env [(''readability'', JDict [(''readability'', JDict [])])] = Inl KeyError"
  by (simp add: format_results_def fr_defs fr_classification_def fr_confidence_def has_key_def
      dict_get_def generate_detailed_insights_def gdi_ai_def gdi_readability_def gdi_complexity_def)

subsection \<open>The insight sequence\<close>

text \<open>Each block only appends: its result on a list is the list followed by its result on the empty list.\<close>

lemma gdi_ai_acc: "gdi_ai data ins = rbind (gdi_ai data []) (\<lambda>a. Inr (ins @ a))"
  by (auto simp: gdi_ai_def rbind_def Let_def split: sum.splits)

lemma gdi_complexity_acc: "gdi_complexity data ins = rbind (gdi_complexity data []) (\<lambda>a. Inr (ins @ a))"
  by (auto simp: gdi_complexity_def rbind_def Let_def split: sum.splits)

lemma gdi_readability_acc: "gdi_readability data ins = rbind (gdi_readability data []) (\<lambda>a. Inr (ins @ a))"
proof (cases "truthy (dict_get data ''readability'' JNull)")
  case False
  then show ?thesis
    by (simp add: gdi_readability_def)
next
  case True
  have c: "gdi_complexity data (ins @ ls) = rbind (gdi_complexity data ls) (\<lambda>a. Inr (ins @ a))" for ls
    using gdi_complexity_acc [of data "ins @ ls"] gdi_complexity_acc [of data ls]
    by (cases "gdi_complexity data []") simp_all
  show ?thesis
    unfolding gdi_readability_def
    by (simp only: True if_True append_Nil c) (auto simp: rbind_def split: sum.splits)
qed

lemma gdi_plagiarism_acc: "gdi_plagiarism env data ins = rbind (gdi_plagiarism env data []) (\<lambda>a. Inr (ins @ a))"
  by (auto simp: gdi_plagiarism_def rbind_def Let_def split: sum.splits)

lemma gdi_sections:
  "generate_detailed_insights env data =
     rbind (gdi_ai data []) (\<lambda>a.
     rbind (gdi_readability data []) (\<lambda>r.
     rbind (gdi_plagiarism env data []) (\<lambda>p. Inr (a @ r @ p))))"
proof -
  have "generate_detailed_insights env data =
     rbind (gdi_ai data []) (\<lambda>a.
     rbind (gdi_readability data a) (\<lambda>ar. gdi_plagiarism env data ar))"
    by (simp add: generate_detailed_insights_def)
  also have "\<dots> = rbind (gdi_ai data []) (\<lambda>a.
     rbind (gdi_readability data []) (\<lambda>r.
     rbind (gdi_plagiarism env data []) (\<lambda>p. Inr (a @ r @ p))))"
    apply (cases "gdi_ai data []")
     apply simp
    subgoal for a
      apply (simp add: gdi_readability_acc [of data a])
      apply (cases "gdi_readability data []")
       apply simp
      subgoal for r
        by (simp add: gdi_plagiarism_acc [of env data "a @ r"])
      done
    done
  finally show ?thesis .
qed

lemma gdi_ai_absent: "\<not> truthy (dict_get data ''ai'' JNull) \<Longrightarrow> gdi_ai data ins = Inr ins"
  by (simp add: gdi_ai_def)

lemma gdi_readability_absent:
  "\<not> truthy (dict_get data ''readability'' JNull) \<Longrightarrow> gdi_readability data ins = Inr ins"
  by (simp add: gdi_readability_def)

lemma gdi_plagiarism_absent:
  "\<not> truthy (dict_get data ''plagiarism'' JNull) \<Longrightarrow> gdi_plagiarism env data ins = Inr ins"
  by (simp add: gdi_plagiarism_def)

lemma gdi_ai_header:
  "truthy (dict_get data ''ai'' JNull) \<Longrightarrow> gdi_ai data [] = Inr a \<Longrightarrow> a \<noteq> [] \<and> hd a = ai_header"
  by (auto simp: gdi_ai_def rbind_eq_Inr Let_def split: if_splits)

lemma gdi_readability_header:
  assumes "truthy (dict_get data ''readability'' JNull)" "gdi_readability data [] = Inr a"
  shows "a \<noteq> [] \<and> hd a = readability_header"
proof -
  from assms obtain ls where "gdi_complexity data (readability_header # ls) = Inr a"
    by (auto simp: gdi_readability_def rbind_eq_Inr)
  then show ?thesis
    using gdi_complexity_acc [of data "readability_header # ls"]
    by (auto simp: rbind_eq_Inr)
qed

lemma gdi_plagiarism_header:
  "truthy (dict_get data ''plagiarism'' JNull) \<Longrightarrow> gdi_plagiarism env data [] = Inr a \<Longrightarrow>
   a \<noteq> [] \<and> hd a = plagiarism_header"
  by (auto simp: gdi_plagiarism_def rbind_eq_Inr Let_def split: if_splits)

text \<open>
  Claim C8. For every document (with or without an \<^verbatim>\<open>error\<close> key, which the function
  does not read), the insight sequence is the sequence of the AI block, followed by that
  of the readability block, followed by that of the plagiarism block, each computed from
  the document alone; the function raises exactly when one of the blocks does. A section
  that is absent (or falsy) contributes the empty sequence, not even a header; a section
  that is present contributes a sequence that starts with its header.
\<close>

theorem insights_fixed_section_order:
  "generate_detailed_insights env data =
     rbind (gdi_ai data []) (\<lambda>a.
     rbind (gdi_readability data []) (\<lambda>r.
     rbind (gdi_plagiarism env data []) (\<lambda>p. Inr (a @ r @ p)))) \<and>
   (\<not> truthy (dict_get data ''ai'' JNull) \<longrightarrow> gdi_ai data [] = Inr []) \<and>
   (\<not> truthy (dict_get data ''readability'' JNull) \<longrightarrow> gdi_readability data [] = Inr []) \<and>
   (\<not> truthy (dict_get data ''plagiarism'' JNull) \<longrightarrow> gdi_plagiarism env data [] = Inr []) \<and>
   (\<forall>a. truthy (dict_get data ''ai'' JNull) \<longrightarrow> gdi_ai data [] = Inr a \<longrightarrow>
        a \<noteq> [] \<and> hd a = ai_header) \<and>
   (\<forall>r. truthy (dict_get data ''readability'' JNull) \<longrightarrow> gdi_readability data [] = Inr r \<longrightarrow>
        r \<noteq> [] \<and> hd r = readability_header) \<and>
   (\<forall>p. truthy (dict_get data ''plagiarism'' JNull) \<longrightarrow> gdi_plagiarism env data [] = Inr p \<longrightarrow>
        p \<noteq> [] \<and> hd p = plagiarism_header)"
  using gdi_sections [of env data] gdi_ai_absent [of data "[]"] gdi_readability_absent [of data "[]"]
    gdi_plagiarism_absent [of data env "[]"] gdi_ai_header [of data] gdi_readability_header [of data]
    gdi_plagiarism_header [of data env]
  by blast

theorem insights_fixed_section_order_witness:
  "\<not> truthy (dict_get
       [(''ai'', JDict [(''confidence'', JDict [(''AI'', JFloat (82 / 100))])]),
        (''plagiarism'', JDict [(''score'', JInt 12)])] ''readability'' JNull) \<and>
   gdi_readability
       [(''ai'', JDict [(''confidence'', JDict [(''AI'', JFloat (82 / 100))])]),
        (''plagiarism'', JDict [(''score'', JInt 12)])] [] = Inr [] \<and>
   generate_detailed_insights sample_env
       [(''ai'', JDict [(''confidence'', JDict [(''AI'', JFloat (82 / 100))])]),
        (''plagiarism'', JDict [(''score'', JInt 12)])]
     = Inr [ai_header, ''  - Overall AI Probability: 82.0%'',
            plagiarism_header, ''  - Overall Score: 12%'']"
proof -
  let ?d = "[(''ai'', JDict [(''confidence'', JDict [(''AI'', JFloat (82 / 100))])]),
             (''plagiarism'', JDict [(''score'', JInt 12)])]"
  have r: "\<not> truthy (dict_get ?d ''readability'' JNull)"
    by (simp add: dict_get_def)
  have a: "gdi_ai ?d [] = Inr [ai_header, ''  - Overall AI Probability: 82.0%'']"
    by (simp add: gdi_ai_def dict_get_def fmt_float_82_Suc)
  have p: "gdi_plagiarism sample_env ?d [] = Inr [plagiarism_header, ''  - Overall Score: 12%'']"
    by (simp add: gdi_plagiarism_def dict_get_def str_int_small)
  from insights_fixed_section_order [of sample_env ?d] r a p show ?thesis
    by simp
qed

lemma truthy_JList_iff: "truthy (JList xs) \<longleftrightarrow> xs \<noteq> []"
  by simp

lemma rmap_total:
  assumes "\<And>x. x \<in> set xs \<Longrightarrow> f x = Inr (g x)"
  shows "rmap f xs = Inr (map g xs)"
  using assms by (induction xs) simp_all

lemma block_fake_high_ai: "block_fake b = Some f \<Longrightarrow> high_ai b = Inr (3 / 4 < f)"
  by (auto simp: block_fake_def high_ai_def py_gt_def split: json.splits option.splits)

lemma rmap_high_ai:
  assumes "list_all (\<lambda>b. block_fake b \<noteq> None) blocks"
  shows "rmap high_ai blocks = Inr (map is_high_ai blocks)"
proof (rule rmap_total)
  fix b assume "b \<in> set blocks"
  with assms obtain f where f: "block_fake b = Some f"
    by (auto simp: list_all_iff)
  then show "high_ai b = Inr (is_high_ai b)"
    by (simp add: block_fake_high_ai is_high_ai_def)
qed

lemma length_filter_map_id: "length (filter (\<lambda>f. f) (map P xs)) = length (filter P xs)"
  by (induction xs) simp_all

lemma gdi_ai_wellformed:
  assumes "dict_get data ''ai'' JNull = JDict ai" "ai \<noteq> []"
    and "map_of ai ''confidence'' = Some (JDict conf)"
    and "py_times_100 (dict_get conf ''AI'' (JInt 0)) = Inr v"
    and "py_format_f 1 v = Inr shown"
    and "dict_get ai ''blocks'' (JList []) = JList blocks"
    and "list_all (\<lambda>b. block_fake b \<noteq> None) blocks"
  shows "gdi_ai data [] =
           Inr ([ai_header, ''  - Overall AI Probability: '' @ shown @ ''%''] @
                (if blocks = [] then []
                 else [block_count_line (int (length (filter is_high_ai blocks)))]))"
  using assms(1-6) rmap_high_ai [OF assms(7)]
  by (simp add: gdi_ai_def Let_def block_count_line_def comp_def)

lemma double_three_quarters: "double (3 / 4) = 3 / 4"
  by code_simp

lemma double_nine_tenths: "3 / 4 < double (9 / 10)"
  by code_simp

lemma c3_doc_insights:
  "generate_detailed_insights env
     [(''ai'', JDict [(''confidence'', JDict [(''AI'', JFloat (82 / 100)), (''Original'', JFloat (18 / 100))])])]
   = Inr [ai_header, ''  - Overall AI Probability: 82.0%'']"
  by (simp add: generate_detailed_insights_def gdi_ai_def gdi_readability_def gdi_plagiarism_def
      dict_get_def fmt_float_82_Suc)

text \<open>
  Claim C3 says that for the document with only \<^verbatim>\<open>ai.confidence\<close> the insight
  sequence reports a high-AI-block count of 0. The sequence has no block-count line:
  the line is appended under \<^verbatim>\<open>if blocks:\<close> only.
\<close>

theorem no_block_count_line_counterexample:
  "\<not> reports (block_count_line 0)
       (generate_detailed_insights sample_env
          [(''ai'', JDict [(''confidence'', JDict [(''AI'', JFloat (82 / 100)), (''Original'', JFloat (18 / 100))])])])"
  using c3_doc_insights [of sample_env]
  by (simp add: reports_def block_count_line_def ai_header_def str_int_small)

text \<open>
  Claim C3, amended. For the document
  \<^verbatim>\<open>{"ai": {"confidence": {"AI": 0.82, "Original": 0.18}}}\<close> the insight sequence is
  exactly the AI header and the line reporting an AI probability of 82.0%. In general,
  the AI block reports \<^verbatim>\<open>confidence.AI * 100\<close> to one decimal (the product \<open>v\<close> and
  its rendering \<open>shown\<close> are Python's, in floating point for a float), and a
  block-count line follows exactly when the list of blocks is not empty; it then
  reports the number of blocks with \<^verbatim>\<open>fake > 0.75\<close>, strictly.
\<close>

theorem ai_insights_probability_and_block_count:
  "generate_detailed_insights env
     [(''ai'', JDict [(''confidence'', JDict [(''AI'', JFloat (82 / 100)), (''Original'', JFloat (18 / 100))])])]
     = Inr [ai_header, ''  - Overall AI Probability: 82.0%''] \<and>
   (\<forall>data ai conf v shown blocks.
      dict_get data ''ai'' JNull = JDict ai \<longrightarrow> ai \<noteq> [] \<longrightarrow>
      map_of ai ''confidence'' = Some (JDict conf) \<longrightarrow>
      py_times_100 (dict_get conf ''AI'' (JInt 0)) = Inr v \<longrightarrow>
      py_format_f 1 v = Inr shown \<longrightarrow>
      dict_get ai ''blocks'' (JList []) = JList blocks \<longrightarrow>
      list_all (\<lambda>b. block_fake b \<noteq> None) blocks \<longrightarrow>
      gdi_ai data [] =
        Inr ([ai_header, ''  - Overall AI Probability: '' @ shown @ ''%''] @
             (if blocks = [] then []
              else [block_count_line (int (length (filter is_high_ai blocks)))])))"
proof (intro conjI allI impI)
  show "generate_detailed_insights env
     [(''ai'', JDict [(''confidence'', JDict [(''AI'', JFloat (82 / 100)), (''Original'', JFloat (18 / 100))])])]
     = Inr [ai_header, ''  - Overall AI Probability: 82.0%'']"
    by (rule c3_doc_insights)
next
  fix data ai conf v shown blocks
  assume "dict_get data ''ai'' JNull = JDict ai" "ai \<noteq> []"
    "map_of ai ''confidence'' = Some (JDict conf)"
    "py_times_100 (dict_get conf ''AI'' (JInt 0)) = Inr v"
    "py_format_f 1 v = Inr shown"
    "dict_get ai ''blocks'' (JList []) = JList blocks"
    "list_all (\<lambda>b. block_fake b \<noteq> None) blocks"
  then show "gdi_ai data [] =
        Inr ([ai_header, ''  - Overall AI Probability: '' @ shown @ ''%''] @
             (if blocks = [] then []
              else [block_count_line (int (length (filter is_high_ai blocks)))]))"
    by (rule gdi_ai_wellformed)
qed

theorem ai_insights_probability_and_block_count_witness:
  "gdi_ai
     [(''ai'', JDict
        [(''confidence'', JDict [(''AI'', JFloat (82 / 100))]),
         (''blocks'', JList
            [JDict [(''text'', JStr ''a''), (''result'', JDict [(''fake'', JFloat (3 / 4))])],
             JDict [(''text'', JStr ''b''), (''result'', JDict [(''fake'', JFloat (9 / 10))])],
             JDict [(''text'', JStr ''c''), (''result'', JDict [])]])])] []
   = Inr [ai_header, ''  - Overall AI Probability: 82.0%'',
          ''  - 1 text blocks show strong AI characteristics'']"
proof -
  let ?blocks =
    "[JDict [(''text'', JStr ''a''), (''result'', JDict [(''fake'', JFloat (3 / 4))])],
      JDict [(''text'', JStr ''b''), (''result'', JDict [(''fake'', JFloat (9 / 10))])],
      JDict [(''text'', JStr ''c''), (''result'', JDict [])]]"
  let ?conf = "[(''AI'', JFloat (82 / 100))]"
  let ?ai = "[(''confidence'', JDict ?conf), (''blocks'', JList ?blocks)]"
  let ?d = "[(''ai'', JDict ?ai)]"
  have h1: "dict_get ?d ''ai'' JNull = JDict ?ai"
    by (simp add: dict_get_def)
  have h2: "?ai \<noteq> []"
    by simp
  have h3: "map_of ?ai ''confidence'' = Some (JDict ?conf)"
    by simp
  have h4: "py_times_100 (dict_get ?conf ''AI'' (JInt 0)) = Inr (JFloat (double (82 / 100) * 100))"
    by (simp add: dict_get_def)
  have h4': "py_format_f 1 (JFloat (double (82 / 100) * 100)) = Inr ''82.0''"
    by (simp add: fmt_float_82_Suc)
  have h5: "dict_get ?ai ''blocks'' (JList []) = JList ?blocks"
    by (simp add: dict_get_def)
  have h6: "list_all (\<lambda>b. block_fake b \<noteq> None) ?blocks"
    by (simp add: block_fake_def dict_get_def del: not_None_eq)
  have n: "length (filter is_high_ai ?blocks) = 1"
    using double_nine_tenths
    by (simp add: is_high_ai_def block_fake_def dict_get_def double_three_quarters)
  from ai_insights_probability_and_block_count [of sample_env]
  have "gdi_ai ?d [] =
        Inr ([ai_header, ''  - Overall AI Probability: '' @ ''82.0'' @ ''%''] @
             (if ?blocks = [] then []
              else [block_count_line (int (length (filter is_high_ai ?blocks)))]))"
    using h1 h2 h3 h4 h4' h5 h6 by blast
  then show ?thesis
    unfolding n by (simp add: block_count_line_def str_int_small)
qed

subsection \<open>The sentence complexity summary\<close>

lemma is_dict_py_get: "is_dict s \<Longrightarrow> py_get s k dflt = Inr (dict_get (the (as_dict s)) k dflt)"
  by (cases s) (simp_all add: is_dict_def)

lemma is_dict_field_truthy: "is_dict s \<Longrightarrow> truthy (dict_get (the (as_dict s)) k dflt) = field_truthy k dflt s"
  by (cases s) (simp_all add: is_dict_def field_truthy_def)

lemma count_get_list:
  assumes "list_all is_dict ss"
  shows "count_get k dflt (JList ss) = Inr (count_field k dflt ss)"
proof -
  have "rmap (\<lambda>s. py_get s k dflt) ss = Inr (map (\<lambda>s. dict_get (the (as_dict s)) k dflt) ss)"
    using assms by (intro rmap_total) (simp add: list_all_iff is_dict_py_get)
  moreover have "filter (truthy \<circ> (\<lambda>s. dict_get (the (as_dict s)) k dflt)) ss = filter (field_truthy k dflt) ss"
    using assms by (intro filter_cong) (simp_all add: list_all_iff is_dict_field_truthy)
  ultimately show ?thesis
    by (simp add: count_get_def count_field_def filter_map)
qed

lemma asc_wellformed:
  assumes "dict_get data ''readability'' JNull = JDict r" "r \<noteq> []"
    and "dict_get r ''sentences'' (JList []) = JList ss"
    and "list_all is_dict ss"
  shows "analyze_sentence_complexity data =
           Inr (complexity_summary (int (length ss))
                  (count_field ''isHard'' (JBool False) ss)
                  (count_field ''isVeryHard'' (JBool False) ss)
                  (count_field ''wordsOver13Chars'' (JList []) ss)
                  (count_field ''wordsOver4Syllables'' (JList []) ss))"
  using assms by (simp add: analyze_sentence_complexity_def count_get_list complexity_summary_def)

lemma asc_truthy_Inr:
  assumes "truthy (dict_get data ''readability'' JNull)" "analyze_sentence_complexity data = Inr m"
  shows "\<exists>t h v l c. m = complexity_summary t h v l c"
  using assms by (auto simp: analyze_sentence_complexity_def rbind_eq_Inr complexity_summary_def)

lemma asc_empty_iff:
  "analyze_sentence_complexity data = Inr [] \<longleftrightarrow> \<not> truthy (dict_get data ''readability'' JNull)"
proof
  assume e: "analyze_sentence_complexity data = Inr []"
  show "\<not> truthy (dict_get data ''readability'' JNull)"
  proof
    assume "truthy (dict_get data ''readability'' JNull)"
    from asc_truthy_Inr [OF this e] show False
      by (simp add: complexity_summary_def)
  qed
next
  assume "\<not> truthy (dict_get data ''readability'' JNull)"
  then show "analyze_sentence_complexity data = Inr []"
    by (simp add: analyze_sentence_complexity_def)
qed

lemma count_field_Nil: "count_field k dflt [] = 0"
  by (simp add: count_field_def)

text \<open>
  Claim C10. \<^verbatim>\<open>analyze_sentence_complexity\<close> returns the empty mapping exactly when
  the readability section is absent or falsy. When the section is truthy, whatever it
  returns has the five count fields, in order; and it does return, with the counts of
  the sentences, when the section is a dictionary whose \<^verbatim>\<open>sentences\<close> entry is missing
  or a list of dictionaries: all five counts are 0 when that list is missing or empty.
\<close>

theorem sentence_complexity_no_data_marker:
  "(analyze_sentence_complexity data = Inr [] \<longleftrightarrow> \<not> truthy (dict_get data ''readability'' JNull)) \<and>
   (\<forall>m. truthy (dict_get data ''readability'' JNull) \<longrightarrow> analyze_sentence_complexity data = Inr m \<longrightarrow>
      map fst m = [''total_sentences'', ''hard_sentences'', ''very_hard_sentences'',
                   ''sentences_with_long_words'', ''sentences_with_complex_words'']) \<and>
   (\<forall>r ss. dict_get data ''readability'' JNull = JDict r \<longrightarrow> r \<noteq> [] \<longrightarrow>
      dict_get r ''sentences'' (JList []) = JList ss \<longrightarrow> list_all is_dict ss \<longrightarrow>
      analyze_sentence_complexity data =
        Inr (complexity_summary (int (length ss))
               (count_field ''isHard'' (JBool False) ss)
               (count_field ''isVeryHard'' (JBool False) ss)
               (count_field ''wordsOver13Chars'' (JList []) ss)
               (count_field ''wordsOver4Syllables'' (JList []) ss))) \<and>
   (\<forall>r. dict_get data ''readability'' JNull = JDict r \<longrightarrow> r \<noteq> [] \<longrightarrow>
      dict_get r ''sentences'' (JList []) = JList [] \<longrightarrow>
      analyze_sentence_complexity data = Inr (complexity_summary 0 0 0 0 0))"
proof (intro conjI allI impI)
  show "analyze_sentence_complexity data = Inr [] \<longleftrightarrow> \<not> truthy (dict_get data ''readability'' JNull)"
    by (rule asc_empty_iff)
next
  fix m
  assume "truthy (dict_get data ''readability'' JNull)" "analyze_sentence_complexity data = Inr m"
  from asc_truthy_Inr [OF this]
  show "map fst m = [''total_sentences'', ''hard_sentences'', ''very_hard_sentences'',
                     ''sentences_with_long_words'', ''sentences_with_complex_words'']"
    by (auto simp: complexity_summary_def)
next
  fix r ss
  assume "dict_get data ''readability'' JNull = JDict r" "r \<noteq> []"
    "dict_get r ''sentences'' (JList []) = JList ss" "list_all is_dict ss"
  then show "analyze_sentence_complexity data =
        Inr (complexity_summary (int (length ss))
               (count_field ''isHard'' (JBool False) ss)
               (count_field ''isVeryHard'' (JBool False) ss)
               (count_field ''wordsOver13Chars'' (JList []) ss)
               (count_field ''wordsOver4Syllables'' (JList []) ss))"
    by (rule asc_wellformed)
next
  fix r
  assume "dict_get data ''readability'' JNull = JDict r" "r \<noteq> []"
    "dict_get r ''sentences'' (JList []) = JList []"
  from asc_wellformed [OF this]
  show "analyze_sentence_complexity data = Inr (complexity_summary 0 0 0 0 0)"
    by (simp add: count_field_Nil)
qed

theorem sentence_complexity_no_data_marker_witness:
  "analyze_sentence_complexity [(''ai'', JDict [])] = Inr [] \<and>
   analyze_sentence_complexity
     [(''readability'', JDict [(''textStats'', JDict [(''sentenceCount'', JInt 0)])])]
     = Inr (complexity_summary 0 0 0 0 0) \<and>
   analyze_sentence_complexity
     [(''readability'', JDict [(''sentences'', JList
        [JDict [(''isHard'', JBool True), (''wordsOver13Chars'', JList [JStr ''internationalization''])],
         JDict [(''isVeryHard'', JBool True)],
         JDict []])])]
     = Inr (complexity_summary 3 1 1 1 0)"
proof -
  let ?d0 = "[(''ai'', JDict [])]"
  let ?r1 = "[(''textStats'', JDict [(''sentenceCount'', JInt 0)])]"
  let ?d1 = "[(''readability'', JDict ?r1)]"
  let ?ss = "[JDict [(''isHard'', JBool True), (''wordsOver13Chars'', JList [JStr ''internationalization''])],
         JDict [(''isVeryHard'', JBool True)],
         JDict []]"
  let ?r2 = "[(''sentences'', JList ?ss)]"
  let ?d2 = "[(''readability'', JDict ?r2)]"
  note t = sentence_complexity_no_data_marker
  have a: "\<not> truthy (dict_get ?d0 ''readability'' JNull)"
    by (simp add: dict_get_def)
  have b: "dict_get ?d1 ''readability'' JNull = JDict ?r1" "?r1 \<noteq> []"
    "dict_get ?r1 ''sentences'' (JList []) = JList []"
    by (simp_all add: dict_get_def)
  have c: "dict_get ?d2 ''readability'' JNull = JDict ?r2" "?r2 \<noteq> []"
    "dict_get ?r2 ''sentences'' (JList []) = JList ?ss" "list_all is_dict ?ss"
    by (simp_all add: dict_get_def is_dict_def)
  have n: "int (length ?ss) = 3"
    "count_field ''isHard'' (JBool False) ?ss = 1"
    "count_field ''isVeryHard'' (JBool False) ?ss = 1"
    "count_field ''wordsOver13Chars'' (JList []) ?ss = 1"
    "count_field ''wordsOver4Syllables'' (JList []) ?ss = 0"
    by (simp_all add: count_field_def field_truthy_def dict_get_def)
  from t [of ?d0] a have 1: "analyze_sentence_complexity ?d0 = Inr []"
    by blast
  from t [of ?d1] b have 2: "analyze_sentence_complexity ?d1 = Inr (complexity_summary 0 0 0 0 0)"
    by blast
  from t [of ?d2] c have "analyze_sentence_complexity ?d2 =
        Inr (complexity_summary (int (length ?ss))
               (count_field ''isHard'' (JBool False) ?ss)
               (count_field ''isVeryHard'' (JBool False) ?ss)
               (count_field ''wordsOver13Chars'' (JList []) ?ss)
               (count_field ''wordsOver4Syllables'' (JList []) ?ss))"
    by blast
  then have 3: "analyze_sentence_complexity ?d2 = Inr (complexity_summary 3 1 1 1 0)"
    unfolding n .
  from 1 2 3 show ?thesis
    by blast
qed



subsection \<open>The percent-complex line\<close>

lemma str_nat_digit: "n < 10 \<Longrightarrow> str_nat n = [digit_char n]"
  by (simp add: str_nat.simps)

lemma digit_char_not_x: 
  assumes "n < 10" shows "digit_char n \<noteq> CHR ''x''"
proof -
  from assms have "n \<in> {0, 1, 2, 3, 4, 5, 6, 7, 8, 9}"
    by auto
  then show ?thesis
    by (auto simp: digit_char_def)
qed

lemma fmt_fixed_1_last: "fmt_fixed (Suc 0) q \<noteq> [] \<and> last (fmt_fixed (Suc 0) q) \<noteq> CHR ''x''"
  by (simp add: fmt_fixed_def Let_def zero_pad_def str_nat_digit digit_char_not_x)

lemma fmt_float_1_last: "fmt_float (Suc 0) q \<noteq> [] \<and> last (fmt_float (Suc 0) q) \<noteq> CHR ''x''"
  using fmt_fixed_1_last [of "double q"] by (simp add: fmt_float_def)

lemma py_format_f_last:
  "py_format_f (Suc 0) x = Inr s \<Longrightarrow> s \<noteq> [] \<and> last s \<noteq> CHR ''x''"
  using fmt_float_1_last by (cases x) (auto split: if_splits)

lemma complex_line_50: "complex_line (percent_complex 2 1 6) = ''  - 50.0% of sentences are complex''"
proof -
  have "fmt_float 1 (percent_complex 2 1 6) = ''50.0''"
    by code_simp
  then show ?thesis
    by (simp add: complex_line_def)
qed

lemma complex_line_last: "is_complex_line l \<Longrightarrow> l \<noteq> [] \<and> last l = CHR ''x''"
  by (auto simp: is_complex_line_def suffix_def)

lemma is_complex_line_complex_line: "is_complex_line (complex_line p)"
  by (simp add: is_complex_line_def complex_line_def suffix_def)

lemma gdi_ai_lines:
  assumes "gdi_ai data [] = Inr a" "l \<in> set a"
  shows "\<not> is_complex_line l"
proof -
  from assms have "last l \<noteq> CHR ''x''"
    by (auto simp: gdi_ai_def rbind_eq_Inr Let_def ai_header_def split: if_splits)
  then show ?thesis
    using complex_line_last by blast
qed

lemma gdi_plagiarism_lines:
  assumes "gdi_plagiarism env data [] = Inr a" "l \<in> set a"
  shows "\<not> is_complex_line l"
proof -
  from assms have "last l \<noteq> CHR ''x''"
    by (auto simp: gdi_plagiarism_def rbind_eq_Inr Let_def plagiarism_header_def split: if_splits)
  then show ?thesis
    using complex_line_last by blast
qed

lemma gdi_complexity_shape:
  assumes "truthy (dict_get data ''readability'' JNull)" "gdi_complexity data ins = Inr out"
  shows "\<exists>t h v l c.
           analyze_sentence_complexity data = Inr (complexity_summary t h v l c) \<and>
           out = ins @ (if 0 < t then [complex_line (percent_complex h v t)] else [])"
proof -
  from assms(2) obtain m where m: "analyze_sentence_complexity data = Inr m"
    unfolding gdi_complexity_def rbind_eq_Inr by blast
  from asc_truthy_Inr [OF assms(1) m] obtain t h v l c where s: "m = complexity_summary t h v l c"
    by blast
  from assms(2) m s
  have "out = ins @ (if 0 < t then [complex_line (percent_complex h v t)] else [])"
    by (auto simp: gdi_complexity_def complexity_summary_def lookup_def complex_line_def Let_def
        percent_complex_def int_truediv_def split: if_splits)
  with m s show ?thesis
    by blast
qed

lemma gdi_readability_shape:
  assumes "truthy (dict_get data ''readability'' JNull)" "gdi_readability data [] = Inr r"
  shows "\<exists>t h v l c es ts.
           analyze_sentence_complexity data = Inr (complexity_summary t h v l c) \<and>
           es \<noteq> [] \<and> last es \<noteq> CHR ''x'' \<and>
           r = [readability_header,
                ''  - Flesch Reading Ease: '' @ es,
                ''  - Average Reading Time: '' @ ts @ '' minutes''] @
               (if 0 < t then [complex_line (percent_complex h v t)] else [])"
proof -
  from assms(2) have "\<exists>ease es time ts.
      py_format_f 1 ease = Inr es \<and> py_format_f 1 time = Inr ts \<and>
      gdi_complexity data
        ([] @ [readability_header, ''  - Flesch Reading Ease: '' @ es,
               ''  - Average Reading Time: '' @ ts @ '' minutes'']) = Inr r"
    unfolding gdi_readability_def
    by (simp only: assms(1) if_True rbind_eq_Inr) blast
  then obtain ease es time ts where
    f: "py_format_f 1 ease = Inr es" "py_format_f 1 time = Inr ts"
    and c: "gdi_complexity data
        ([] @ [readability_header, ''  - Flesch Reading Ease: '' @ es,
               ''  - Average Reading Time: '' @ ts @ '' minutes'']) = Inr r"
    by blast
  from f(1) have q: "es \<noteq> [] \<and> last es \<noteq> CHR ''x''"
    using py_format_f_last [of ease es] by simp
  from gdi_complexity_shape [OF assms(1) c] obtain t h v l c where
    "analyze_sentence_complexity data = Inr (complexity_summary t h v l c)"
    "r = [readability_header, ''  - Flesch Reading Ease: '' @ es,
          ''  - Average Reading Time: '' @ ts @ '' minutes''] @
         (if 0 < t then [complex_line (percent_complex h v t)] else [])"
    unfolding append_Nil by blast
  with q show ?thesis
    by blast
qed

lemma gdi_readability_complex_line:
  assumes "truthy (dict_get data ''readability'' JNull)" "gdi_readability data [] = Inr r"
  shows "\<exists>t h v l c.
           analyze_sentence_complexity data = Inr (complexity_summary t h v l c) \<and>
           ((\<exists>x \<in> set r. is_complex_line x) \<longleftrightarrow> 0 < t) \<and>
           (0 < t \<longrightarrow> complex_line (percent_complex h v t) \<in> set r)"
proof -
  from gdi_readability_shape [OF assms] obtain t h v l c es ts where
    a: "analyze_sentence_complexity data = Inr (complexity_summary t h v l c)"
    and e: "es \<noteq> []" "last es \<noteq> CHR ''x''"
    and r: "r = [readability_header,
                ''  - Flesch Reading Ease: '' @ es,
                ''  - Average Reading Time: '' @ ts @ '' minutes''] @
               (if 0 < t then [complex_line (percent_complex h v t)] else [])"
    by blast
  have n1: "\<not> is_complex_line readability_header"
    using complex_line_last [of readability_header] by (auto simp: readability_header_def)
  have n2: "\<not> is_complex_line (''  - Flesch Reading Ease: '' @ es)"
    using complex_line_last [of "''  - Flesch Reading Ease: '' @ es"] e by auto
  have n3: "\<not> is_complex_line (''  - Average Reading Time: '' @ ts @ '' minutes'')"
    using complex_line_last [of "''  - Average Reading Time: '' @ ts @ '' minutes''"]
    by auto
  from r n1 n2 n3 is_complex_line_complex_line
  have "((\<exists>x \<in> set r. is_complex_line x) \<longleftrightarrow> 0 < t) \<and>
        (0 < t \<longrightarrow> complex_line (percent_complex h v t) \<in> set r)"
    by (cases "0 < t") (simp_all del: One_nat_def)
  with a show ?thesis
    by blast
qed

text \<open>
  Claim C4. Whenever the readability section is present and the insight sequence is
  produced, the sequence has a line ending in \<^verbatim>\<open>% of sentences are complex\<close> if and
  only if \<^verbatim>\<open>total_sentences > 0\<close>, and then it has the line showing
  \<^verbatim>\<open>(hard_sentences + very_hard_sentences) / total_sentences * 100\<close>, computed in
  floating point, to one decimal; with no sentences there is no such line at all. For
  six sentences of which two are hard and one other is very hard, the summary has total
  6, hard 2, very hard 1 and the line shows 50.0%.
\<close>

theorem percent_complex_line_iff_sentences:
  assumes "truthy (dict_get data ''readability'' JNull)"
    and "generate_detailed_insights env data = Inr xs"
  shows "\<exists>t h v l c.
           analyze_sentence_complexity data = Inr (complexity_summary t h v l c) \<and>
           ((\<exists>x \<in> set xs. is_complex_line x) \<longleftrightarrow> 0 < t) \<and>
           (0 < t \<longrightarrow> complex_line (percent_complex h v t) \<in> set xs) \<and>
           (t = 6 \<and> h = 2 \<and> v = 1 \<longrightarrow> ''  - 50.0% of sentences are complex'' \<in> set xs) \<and>
           (\<forall>r ss. dict_get data ''readability'' JNull = JDict r \<longrightarrow>
              dict_get r ''sentences'' (JList []) = JList ss \<longrightarrow> list_all is_dict ss \<longrightarrow>
              t = int (length ss) \<and> h = count_field ''isHard'' (JBool False) ss \<and>
              v = count_field ''isVeryHard'' (JBool False) ss)"
proof -
  from assms(2) obtain a r p where
    a: "gdi_ai data [] = Inr a" and r: "gdi_readability data [] = Inr r"
    and p: "gdi_plagiarism env data [] = Inr p" and xs: "xs = a @ r @ p"
    unfolding gdi_sections rbind_eq_Inr by blast
  from gdi_readability_complex_line [OF assms(1) r] obtain t h v l c where
    s: "analyze_sentence_complexity data = Inr (complexity_summary t h v l c)"
    and i: "(\<exists>x \<in> set r. is_complex_line x) \<longleftrightarrow> 0 < t"
    and m: "0 < t \<longrightarrow> complex_line (percent_complex h v t) \<in> set r"
    by blast
  have 1: "(\<exists>x \<in> set xs. is_complex_line x) \<longleftrightarrow> 0 < t"
    using i gdi_ai_lines [OF a] gdi_plagiarism_lines [OF p] unfolding xs by auto
  have 2: "0 < t \<longrightarrow> complex_line (percent_complex h v t) \<in> set xs"
    using m unfolding xs by simp
  have 3: "t = 6 \<and> h = 2 \<and> v = 1 \<longrightarrow> ''  - 50.0% of sentences are complex'' \<in> set xs"
  proof
    assume e: "t = 6 \<and> h = 2 \<and> v = 1"
    then have "complex_line (percent_complex h v t) = ''  - 50.0% of sentences are complex''"
      using complex_line_50 by simp
    with 2 e show "''  - 50.0% of sentences are complex'' \<in> set xs"
      by simp
  qed
  have 4: "\<forall>r ss. dict_get data ''readability'' JNull = JDict r \<longrightarrow>
              dict_get r ''sentences'' (JList []) = JList ss \<longrightarrow> list_all is_dict ss \<longrightarrow>
              t = int (length ss) \<and> h = count_field ''isHard'' (JBool False) ss \<and>
              v = count_field ''isVeryHard'' (JBool False) ss"
  proof (intro allI impI)
    fix r' ss
    assume d: "dict_get data ''readability'' JNull = JDict r'"
      "dict_get r' ''sentences'' (JList []) = JList ss" "list_all is_dict ss"
    from assms(1) d(1) have "r' \<noteq> []"
      by auto
    from asc_wellformed [OF d(1) this d(2) d(3)] s
    show "t = int (length ss) \<and> h = count_field ''isHard'' (JBool False) ss \<and>
              v = count_field ''isVeryHard'' (JBool False) ss"
      by (simp add: complexity_summary_def)
  qed
  from s 1 2 3 4 show ?thesis
    by blast
qed

theorem percent_complex_line_iff_sentences_witness:
  "truthy (dict_get
     [(''readability'', JDict
        [(''readability'', JDict []), (''textStats'', JDict []),
         (''sentences'', JList
            [JDict [(''isHard'', JBool True)], JDict [(''isHard'', JBool True)],
             JDict [(''isVeryHard'', JBool True)], JDict [], JDict [], JDict []])])]
     ''readability'' JNull) \<and>
   generate_detailed_insights sample_env
     [(''readability'', JDict
        [(''readability'', JDict []), (''textStats'', JDict []),
         (''sentences'', JList
            [JDict [(''isHard'', JBool True)], JDict [(''isHard'', JBool True)],
             JDict [(''isVeryHard'', JBool True)], JDict [], JDict [], JDict []])])]
     = Inr [readability_header, ''  - Flesch Reading Ease: 0.0'',
            ''  - Average Reading Time: 0.0 minutes'', ''  - 50.0% of sentences are complex''] \<and>
   analyze_sentence_complexity
     [(''readability'', JDict
        [(''readability'', JDict []), (''textStats'', JDict []),
         (''sentences'', JList
            [JDict [(''isHard'', JBool True)], JDict [(''isHard'', JBool True)],
             JDict [(''isVeryHard'', JBool True)], JDict [], JDict [], JDict []])])]
     = Inr (complexity_summary 6 2 1 0 0) \<and>
   ''  - 50.0% of sentences are complex'' \<in> set
     [readability_header, ''  - Flesch Reading Ease: 0.0'',
      ''  - Average Reading Time: 0.0 minutes'', ''  - 50.0% of sentences are complex'']"
proof -
  let ?d = "[(''readability'', JDict
        [(''readability'', JDict []), (''textStats'', JDict []),
         (''sentences'', JList
            [JDict [(''isHard'', JBool True)], JDict [(''isHard'', JBool True)],
             JDict [(''isVeryHard'', JBool True)], JDict [], JDict [], JDict []])])]"
  let ?xs = "[readability_header, ''  - Flesch Reading Ease: 0.0'',
      ''  - Average Reading Time: 0.0 minutes'', ''  - 50.0% of sentences are complex'']"
  have h1: "truthy (dict_get ?d ''readability'' JNull)"
    by (simp add: dict_get_def)
  have s: "analyze_sentence_complexity ?d = Inr (complexity_summary 6 2 1 0 0)"
    by (simp add: analyze_sentence_complexity_def count_get_def dict_get_def complexity_summary_def)
  have h2: "generate_detailed_insights sample_env ?d = Inr ?xs"
    by (simp add: generate_detailed_insights_def gdi_ai_def gdi_readability_def gdi_complexity_def
        gdi_plagiarism_def s complexity_summary_def lookup_def fmt_float_0_Suc fmt_float_50_Suc int_truediv_def finite_double_small double_half)
      (simp add: dict_get_def fmt_float_0_Suc)
  from percent_complex_line_iff_sentences [OF h1 h2] s
  have "''  - 50.0% of sentences are complex'' \<in> set ?xs"
    by (auto simp: complexity_summary_def)
  with h1 h2 s show ?thesis
    by blast
qed

subsection \<open>The plagiarism metric mapping\<close>

lemma str_nat_nonempty: "str_nat n \<noteq> []"
  by (subst str_nat.simps) simp

lemma digit_char_inj:
  assumes "m < 10" "n < 10" "digit_char m = digit_char n"
  shows "m = n"
proof -
  from assms(1) have m: "m \<in> {0, 1, 2, 3, 4, 5, 6, 7, 8, 9}"
    by auto
  from assms(2) have n: "n \<in> {0, 1, 2, 3, 4, 5, 6, 7, 8, 9}"
    by auto
  from m n assms(3) show ?thesis
    by (auto simp: digit_char_def)
qed

lemma str_nat_inj: "str_nat m = str_nat n \<Longrightarrow> m = n"
proof (induction m arbitrary: n rule: str_nat.induct)
  case (1 m)
  show ?case
  proof (cases "m < 10")
    case True
    show ?thesis
    proof (cases "n < 10")
      case n: True
      from "1.prems" True n show ?thesis
        by (simp add: str_nat_digit digit_char_inj)
    next
      case False
      with "1.prems" True str_nat_nonempty [of "n div 10"] show ?thesis
        by (simp add: str_nat_digit str_nat.simps [of n])
    qed
  next
    case False
    show ?thesis
    proof (cases "n < 10")
      case True
      with "1.prems" False str_nat_nonempty [of "m div 10"] show ?thesis
        by (simp add: str_nat_digit str_nat.simps [of m])
    next
      case n: False
      from "1.prems" False n
      have e: "str_nat (m div 10) = str_nat (n div 10)" "digit_char (m mod 10) = digit_char (n mod 10)"
        by (simp_all add: str_nat.simps [of m] str_nat.simps [of n])
      from "1.IH" [OF False e(1)] have "m div 10 = n div 10" .
      moreover from e(2) have "m mod 10 = n mod 10"
        by (intro digit_char_inj) simp_all
      ultimately show ?thesis
        by (metis div_mult_mod_eq)
    qed
  qed
qed

lemma dict_set_fresh: "k \<notin> fst ` set d \<Longrightarrow> dict_set d k v = d @ [(k, v)]"
  by (induction d) auto

lemma add_matches_wellformed:
  assumes "list_all is_dict ms"
    and "\<forall>k \<in> fst ` set metrics. k = ''Overall Score'' \<or> (\<exists>j < i. k = ''Match '' @ str_nat j)"
  shows "add_matches i ms metrics =
           Inr (metrics @ map (\<lambda>(j, m). (''Match '' @ str_nat j, match_score m))
                            (zip [i ..< i + length ms] ms))"
  using assms
proof (induction ms arbitrary: i metrics)
  case Nil
  then show ?case by simp
next
  case (Cons m ms)
  from Cons.prems(1) obtain d where d: "m = JDict d"
    by (cases m) (simp_all add: is_dict_def)
  have fresh: "''Match '' @ str_nat i \<notin> fst ` set metrics"
  proof
    assume "''Match '' @ str_nat i \<in> fst ` set metrics"
    with Cons.prems(2) have "''Match '' @ str_nat i = ''Overall Score'' \<or>
        (\<exists>j < i. ''Match '' @ str_nat i = ''Match '' @ str_nat j)"
      by blast
    then show False
      using str_nat_inj by auto
  qed
  let ?metrics = "metrics @ [(''Match '' @ str_nat i, match_score m)]"
  have inv: "\<forall>k \<in> fst ` set ?metrics. k = ''Overall Score'' \<or> (\<exists>j < Suc i. k = ''Match '' @ str_nat j)"
    using Cons.prems(2) less_Suc_eq by auto
  from Cons.prems(1) have ms: "list_all is_dict ms"
    by simp
  have z: "[i ..< i + length (m # ms)] = i # [Suc i ..< Suc i + length ms]"
    using upt_conv_Cons [of i "i + length (m # ms)"] by simp
  have step: "add_matches i (m # ms) metrics = add_matches (Suc i) ms ?metrics"
    unfolding add_matches.simps d py_get.simps rbind_Inr dict_set_fresh [OF fresh] match_score_def
    by simp
  show ?case
    unfolding step z
    using Cons.IH [OF ms inv]
    by (simp del: upt_Suc)
qed

lemma plagiarism_metrics_wellformed:
  assumes "dict_get data ''plagiarism'' JNull = JDict p" "p \<noteq> []"
    and "dict_get p ''matches'' (JList []) = JList ms"
    and "list_all is_dict ms"
  shows "plagiarism_metrics data =
           Inr (Some ((''Overall Score'', dict_get p ''score'' (JInt 0)) #
                      map (\<lambda>(j, m). (''Match '' @ str_nat j, match_score m))
                        (zip [1 ..< 1 + length ms] ms)))"
proof (cases "ms = []")
  case True
  with assms(3) have "\<not> truthy (dict_get p ''matches'' JNull)"
    by (auto simp: dict_get_def split: option.splits)
  with assms(1,2) True show ?thesis
    by (simp add: plagiarism_metrics_def)
next
  case False
  with assms(3) have m: "map_of p ''matches'' = Some (JList ms)"
    by (auto simp: dict_get_def split: option.splits)
  then have g: "dict_get p ''matches'' JNull = JList ms"
    by (simp add: dict_get_def)
  have "add_matches 1 ms [(''Overall Score'', dict_get p ''score'' (JInt 0))] =
          Inr ([(''Overall Score'', dict_get p ''score'' (JInt 0))] @
               map (\<lambda>(j, m). (''Match '' @ str_nat j, match_score m)) (zip [1 ..< 1 + length ms] ms))"
    by (rule add_matches_wellformed [OF assms(4)]) simp
  with assms(1,2) False m g show ?thesis
    by (simp add: plagiarism_metrics_def)
qed

lemma str_nat_1_2:
  "str_nat 1 = ''1''" "str_nat 2 = ''2''" "str_nat (Suc 0) = ''1''" "str_nat (Suc (Suc 0)) = ''2''"
  by (simp_all add: str_nat_digit digit_char_def)

lemma map_fst_match_entries:
  "map fst (map (\<lambda>(j, m). (''Match '' @ str_nat j, match_score m)) (zip [i ..< i + length ms] ms))
     = map (\<lambda>j. ''Match '' @ str_nat j) [i ..< i + length ms]"
proof -
  let ?z = "zip [i ..< i + length ms] ms"
  have a: "map fst (map (\<lambda>(j, m). (''Match '' @ str_nat j, match_score m)) ?z)
          = map (\<lambda>x. ''Match '' @ str_nat (fst x)) ?z"
    by (simp add: case_prod_beta del: upt_Suc)
  have b: "map (\<lambda>x. ''Match '' @ str_nat (fst x)) ?z = map (\<lambda>j. ''Match '' @ str_nat j) (map fst ?z)"
    by (simp only: map_map comp_def)
  have c: "map fst ?z = [i ..< i + length ms]"
    by (rule map_fst_zip) simp
  show ?thesis
    by (simp only: a b c)
qed

lemma distinct_match_labels: "distinct (map (\<lambda>j. ''Match '' @ str_nat j) [i ..< k])"
  by (auto simp: distinct_map inj_on_def dest: str_nat_inj)

text \<open>
  Claim C7. For a document whose plagiarism section is present, a dictionary whose
  \<^verbatim>\<open>matches\<close> entry is missing or a list of dictionaries, the function builds a
  mapping of \<open>1 + len(matches)\<close> entries with distinct labels: the first is
  \<^verbatim>\<open>Overall Score\<close> with the section's score (0 when it has none), and entry \<open>i\<close> is
  \<^verbatim>\<open>Match i\<close> (counted from 1) with the score of the \<open>i\<close>-th match, in the order of the
  matches; the bar chart plots its keys against its values. Two matches scoring 40 and
  10 give \<^verbatim>\<open>Overall Score\<close>, \<^verbatim>\<open>Match 1\<close>: 40, \<^verbatim>\<open>Match 2\<close>: 10, in that order.
\<close>

theorem plagiarism_metric_mapping:
  assumes "dict_get data ''plagiarism'' JNull = JDict p" "p \<noteq> []"
    and "dict_get p ''matches'' (JList []) = JList ms"
    and "list_all is_dict ms"
  shows "\<exists>metrics.
           plagiarism_metrics data = Inr (Some metrics) \<and>
           plot_plagiarism_metrics env data =
             Inr (Some \<lparr>bar_x = map fst metrics, bar_y = map snd metrics,
                        bar_text = map (\<lambda>v. py_str env v @ ''%'') (map snd metrics)\<rparr>) \<and>
           length metrics = 1 + length ms \<and>
           metrics ! 0 = (''Overall Score'', dict_get p ''score'' (JInt 0)) \<and>
           (\<forall>i < length ms. metrics ! Suc i = (''Match '' @ str_nat (Suc i), match_score (ms ! i))) \<and>
           distinct (map fst metrics) \<and>
           (\<forall>m1 m2. ms = [m1, m2] \<longrightarrow> match_score m1 = JInt 40 \<longrightarrow> match_score m2 = JInt 10 \<longrightarrow>
              metrics = [(''Overall Score'', dict_get p ''score'' (JInt 0)),
                         (''Match 1'', JInt 40), (''Match 2'', JInt 10)])"
proof -
  let ?entries = "map (\<lambda>(j, m). (''Match '' @ str_nat j, match_score m)) (zip [1 ..< 1 + length ms] ms)"
  let ?metrics = "(''Overall Score'', dict_get p ''score'' (JInt 0)) # ?entries"
  have m: "plagiarism_metrics data = Inr (Some ?metrics)"
    using assms by (rule plagiarism_metrics_wellformed)
  then have f: "plot_plagiarism_metrics env data =
             Inr (Some \<lparr>bar_x = map fst ?metrics, bar_y = map snd ?metrics,
                        bar_text = map (\<lambda>v. py_str env v @ ''%'') (map snd ?metrics)\<rparr>)"
    unfolding plot_plagiarism_metrics_def by (simp only: rbind_Inr option.case)
  have l: "length ?metrics = 1 + length ms"
    by (simp del: upt_Suc)
  have z: "?metrics ! 0 = (''Overall Score'', dict_get p ''score'' (JInt 0))"
    by simp
  have n: "\<forall>i < length ms. ?metrics ! Suc i = (''Match '' @ str_nat (Suc i), match_score (ms ! i))"
    by (simp del: upt_Suc)
  have "''Overall Score'' \<notin> set (map (\<lambda>j. ''Match '' @ str_nat j) [1 ..< 1 + length ms])"
    by auto
  then have d: "distinct (map fst ?metrics)"
    using distinct_match_labels [of 1 "1 + length ms"] map_fst_match_entries [of 1 ms]
    by (simp only: list.map fst_conv distinct.simps) simp
  have e: "\<forall>m1 m2. ms = [m1, m2] \<longrightarrow> match_score m1 = JInt 40 \<longrightarrow> match_score m2 = JInt 10 \<longrightarrow>
              ?metrics = [(''Overall Score'', dict_get p ''score'' (JInt 0)),
                         (''Match 1'', JInt 40), (''Match 2'', JInt 10)]"
    by (auto simp: str_nat_1_2)
  from m f l z n d e show ?thesis
    by blast
qed

theorem plagiarism_metric_mapping_witness:
  "plagiarism_metrics
     [(''plagiarism'', JDict
        [(''score'', JInt 25),
         (''matches'', JList
            [JDict [(''url'', JStr ''a''), (''score'', JInt 40)],
             JDict [(''url'', JStr ''b''), (''score'', JInt 10)]])])]
   = Inr (Some [(''Overall Score'', JInt 25), (''Match 1'', JInt 40), (''Match 2'', JInt 10)])"
proof -
  let ?m1 = "JDict [(''url'', JStr ''a''), (''score'', JInt 40)]"
  let ?m2 = "JDict [(''url'', JStr ''b''), (''score'', JInt 10)]"
  let ?p = "[(''score'', JInt 25), (''matches'', JList [?m1, ?m2])]"
  let ?d = "[(''plagiarism'', JDict ?p)]"
  have h: "dict_get ?d ''plagiarism'' JNull = JDict ?p" "?p \<noteq> []"
    "dict_get ?p ''matches'' (JList []) = JList [?m1, ?m2]" "list_all is_dict [?m1, ?m2]"
    by (simp_all add: dict_get_def is_dict_def)
  have s: "match_score ?m1 = JInt 40" "match_score ?m2 = JInt 10" "dict_get ?p ''score'' (JInt 0) = JInt 25"
    by (simp_all add: match_score_def dict_get_def)
  from plagiarism_metric_mapping [OF h, of sample_env] obtain metrics where
    "plagiarism_metrics ?d = Inr (Some metrics)"
    "\<forall>m1 m2. [?m1, ?m2] = [m1, m2] \<longrightarrow> match_score m1 = JInt 40 \<longrightarrow> match_score m2 = JInt 10 \<longrightarrow>
       metrics = [(''Overall Score'', dict_get ?p ''score'' (JInt 0)),
                  (''Match 1'', JInt 40), (''Match 2'', JInt 10)]"
    by blast
  with s show ?thesis
    by metis
qed

subsection \<open>The per-block scores\<close>

lemma rmap_list_all2:
  assumes "\<And>x. x \<in> set xs \<Longrightarrow> \<exists>y. f x = Inr y \<and> P x y"
  shows "\<exists>ys. rmap f xs = Inr ys \<and> list_all2 P xs ys"
  using assms
proof (induction xs)
  case Nil
  then show ?case by simp
next
  case (Cons x xs)
  from Cons.prems [of x] obtain y where y: "f x = Inr y" "P x y"
    by auto
  from Cons.IH Cons.prems obtain ys where ys: "rmap f xs = Inr ys" "list_all2 P xs ys"
    by auto
  from y ys show ?case
    by simp
qed

lemma rmap_map: "rmap f (map g xs) = rmap (\<lambda>x. f (g x)) xs"
  by (induction xs) simp_all

lemma num_val_times_100:
  assumes "num_val x = Some f" "0 \<le> f" "f \<le> 1"
  shows "\<exists>a. py_times_100 x = Inr a \<and> product_cell f a"
proof (cases x)
  case (JInt i)
  with assms have "0 \<le> i" "i \<le> 1"
    by simp_all
  then have "i = 0 \<or> i = 1"
    by auto
  with JInt assms(1) show ?thesis
    by (auto simp: product_cell_def)
qed (use assms in \<open>auto simp: product_cell_def\<close>)

lemma product_cell_facts:
  assumes "product_cell f a"
  shows "is_number a" "is_int64_or_float a" "num_val a = Some (double (f * 100))"
    "num_val (to_float a) = Some (double (f * 100))"
  using assms by (auto simp: product_cell_def double_100)

lemma frame_column_products:
  assumes "list_all2 product_cell fs vs"
  shows "\<exists>ws. frame_column vs = Inr ws \<and>
              list_all2 (\<lambda>f w. num_val w = Some (double (f * 100))) fs ws"
proof -
  from assms have n: "list_all is_int64_or_float vs"
    unfolding list_all_length list_all2_conv_all_nth using product_cell_facts(2) by auto
  from assms have k: "list_all2 (\<lambda>f w. num_val w = Some (double (f * 100))) fs vs"
    using product_cell_facts(3) by (auto simp: list_all2_conv_all_nth)
  from assms have t: "list_all2 (\<lambda>f w. num_val w = Some (double (f * 100))) fs (map to_float vs)"
    using product_cell_facts(4) by (auto simp: list_all2_conv_all_nth)
  from n k t show ?thesis
    by (auto simp: frame_column_def)
qed

lemma text_block_dict: "text_block b \<Longrightarrow> \<exists>d. b = JDict d \<and> has_key d ''result'' \<and> has_key d ''text''"
  by (cases b)
    (auto simp: text_block_def probability_def block_text_def block_fake_def has_key_def
      split: option.splits)

lemma text_block_fake:
  assumes "text_block b"
  shows "\<exists>f. block_fake b = Some f \<and> 0 \<le> f \<and> f \<le> 1"
  using assms by (auto simp: text_block_def probability_def split: option.splits)

lemma text_block_real:
  assumes "text_block b"
  shows "\<exists>f. block_real b = Some f \<and> 0 \<le> f \<and> f \<le> 1"
  using assms by (auto simp: text_block_def probability_def split: option.splits)

lemma score_of_fake:
  assumes "text_block b"
  shows "\<exists>a. score_of ''fake'' (map_of (the (as_dict b)) ''result'') = Inr a \<and>
             product_cell (the (block_fake b)) a"
proof -
  from text_block_fake [OF assms] obtain f where f: "block_fake b = Some f" "0 \<le> f" "f \<le> 1"
    by blast
  then obtain d r where
    b: "b = JDict d" "map_of d ''result'' = Some (JDict r)"
       "num_val (dict_get r ''fake'' (JInt 0)) = Some f"
    by (cases b) (auto simp: block_fake_def split: option.splits json.splits)
  from num_val_times_100 [OF b(3) f(2,3)] b f(1) show ?thesis
    by (auto simp: score_of_def)
qed

lemma score_of_real:
  assumes "text_block b"
  shows "\<exists>a. score_of ''real'' (map_of (the (as_dict b)) ''result'') = Inr a \<and>
             product_cell (the (block_real b)) a"
proof -
  from text_block_real [OF assms] obtain f where f: "block_real b = Some f" "0 \<le> f" "f \<le> 1"
    by blast
  then obtain d r where
    b: "b = JDict d" "map_of d ''result'' = Some (JDict r)"
       "num_val (dict_get r ''real'' (JInt 0)) = Some f"
    by (cases b) (auto simp: block_real_def split: option.splits json.splits)
  from num_val_times_100 [OF b(3) f(2,3)] b f(1) show ?thesis
    by (auto simp: score_of_def)
qed

lemma as_rows_text_blocks:
  assumes "list_all text_block blocks"
  shows "as_rows (JList blocks) = Some (map (\<lambda>x. the (as_dict x)) blocks)"
proof -
  from assms have "list_all (\<lambda>x. as_dict x \<noteq> None) blocks"
    by (auto simp: list_all_iff dest!: text_block_dict)
  then show ?thesis
    by simp
qed

lemma column_text_blocks:
  assumes "list_all text_block blocks" "blocks \<noteq> []"
  shows "column (map (\<lambda>x. the (as_dict x)) blocks) ''result''
           = Inr (map (\<lambda>b. map_of (the (as_dict b)) ''result'') blocks)"
    and "column (map (\<lambda>x. the (as_dict x)) blocks) ''text'' = Inr (map block_text blocks)"
proof -
  from assms obtain b where b: "b \<in> set blocks"
    by (cases blocks) auto
  with assms(1) have "text_block b"
    by (simp add: list_all_iff)
  from text_block_dict [OF this] obtain d where
    d: "b = JDict d" "has_key d ''result''" "has_key d ''text''"
    by blast
  from b d have "has_key (the (as_dict b)) ''result''" "has_key (the (as_dict b)) ''text''"
    by simp_all
  with b have e: "list_ex (\<lambda>r. has_key r ''result'') (map (\<lambda>x. the (as_dict x)) blocks)"
      "list_ex (\<lambda>r. has_key r ''text'') (map (\<lambda>x. the (as_dict x)) blocks)"
    unfolding list_ex_iff by auto
  have t: "map (\<lambda>r. map_of r ''text'') (map (\<lambda>x. the (as_dict x)) blocks) = map block_text blocks"
    using assms(1) by (auto simp: list_all_iff block_text_def dest!: text_block_dict)
  from e show "column (map (\<lambda>x. the (as_dict x)) blocks) ''result''
           = Inr (map (\<lambda>b. map_of (the (as_dict b)) ''result'') blocks)"
    by (simp add: column_def comp_def)
  from e t show "column (map (\<lambda>x. the (as_dict x)) blocks) ''text'' = Inr (map block_text blocks)"
    by (simp only: column_def if_True)
qed

lemma score_column:
  assumes "list_all text_block blocks"
    and "\<And>b. text_block b \<Longrightarrow>
           \<exists>a. score_of k (map_of (the (as_dict b)) ''result'') = Inr a \<and> product_cell (the (g b)) a"
  shows "\<exists>ws. rbind (rmap (score_of k) (map (\<lambda>b. map_of (the (as_dict b)) ''result'') blocks))
                 frame_column = Inr ws \<and>
              list_all2 (\<lambda>b w. num_val w = Some (double (the (g b) * 100))) blocks ws"
proof -
  from rmap_list_all2 [of blocks "\<lambda>b. score_of k (map_of (the (as_dict b)) ''result'')"
      "\<lambda>b a. product_cell (the (g b)) a"] assms
  obtain vs where vs: "rmap (score_of k) (map (\<lambda>b. map_of (the (as_dict b)) ''result'') blocks) = Inr vs"
    "list_all2 (\<lambda>b a. product_cell (the (g b)) a) blocks vs"
    unfolding rmap_map list_all_iff by blast
  from vs(2) have "list_all2 product_cell (map (\<lambda>b. the (g b)) blocks) vs"
    by (simp add: list_all2_map1)
  from frame_column_products [OF this] obtain ws where
    ws: "frame_column vs = Inr ws"
    "list_all2 (\<lambda>f w. num_val w = Some (double (f * 100))) (map (\<lambda>b. the (g b)) blocks) ws"
    by blast
  from ws(2) have "list_all2 (\<lambda>b w. num_val w = Some (double (the (g b) * 100))) blocks ws"
    by (simp add: list_all2_map1)
  with vs(1) ws(1) show ?thesis
    by simp
qed

lemma analyze_ai_blocks_wellformed:
  assumes "dict_get data ''ai'' JNull = JDict ai" "ai \<noteq> []"
    and "dict_get ai ''blocks'' JNull = JList blocks"
    and "list_all text_block blocks"
  shows "\<exists>as hs.
           analyze_ai_blocks data = Inr (zip (map block_text blocks) (zip as hs)) \<and>
           list_all2 (\<lambda>b a. num_val a = Some (double (the (block_fake b) * 100))) blocks as \<and>
           list_all2 (\<lambda>b h. num_val h = Some (double (the (block_real b) * 100))) blocks hs"
proof (cases "blocks = []")
  case True
  with assms(1,2,3) have "analyze_ai_blocks data = Inr []"
    by (simp add: analyze_ai_blocks_def)
  with True show ?thesis
    by simp
next
  case False
  from assms(3) False have g: "py_getitem (JDict ai) ''blocks'' = Inr (JList blocks)"
    by (auto simp: dict_get_def split: option.splits)
  let ?res = "map (\<lambda>b. map_of (the (as_dict b)) ''result'') blocks"
  from score_column [OF assms(4), of "''fake''" block_fake] score_of_fake
  obtain as where as: "rbind (rmap (score_of ''fake'') ?res) frame_column = Inr as"
    "list_all2 (\<lambda>b a. num_val a = Some (double (the (block_fake b) * 100))) blocks as"
    by blast
  from score_column [OF assms(4), of "''real''" block_real] score_of_real
  obtain hs where hs: "rbind (rmap (score_of ''real'') ?res) frame_column = Inr hs"
    "list_all2 (\<lambda>b h. num_val h = Some (double (the (block_real b) * 100))) blocks hs"
    by blast
  from as(1) obtain av where av: "rmap (score_of ''fake'') ?res = Inr av" "frame_column av = Inr as"
    unfolding rbind_eq_Inr by blast
  from hs(1) obtain hv where hv: "rmap (score_of ''real'') ?res = Inr hv" "frame_column hv = Inr hs"
    unfolding rbind_eq_Inr by blast
  have "analyze_ai_blocks data = Inr (zip (map block_text blocks) (zip as hs))"
    unfolding analyze_ai_blocks_def
    using assms(1,2,3) False g av hv
    by (simp add: as_rows_text_blocks [OF assms(4)] column_text_blocks [OF assms(4) False]
        del: as_rows.simps)
  with as(2) hs(2) show ?thesis
    by blast
qed

lemma double_percent_bounds:
  assumes "0 \<le> f" "f \<le> 1"
  shows "0 \<le> double (f * 100) \<and> double (f * 100) \<le> 100"
  using assms double_nonneg [of "f * 100"] double_le_100 [of "f * 100"] by simp

lemma product_7: "double (double (7 / 100) * 100) = 7 + 1 / 2 ^ 50"
  by code_simp

lemma product_57: "double (double (57 / 100) * 100) = 57 - 1 / 2 ^ 47"
  by code_simp

text \<open>
  Claim C6 says that \<^verbatim>\<open>ai_score\<close> and \<^verbatim>\<open>human_score\<close> are exactly
  \<^verbatim>\<open>result.fake * 100\<close> and \<^verbatim>\<open>result.real * 100\<close>. The products are computed in
  floating point: for the block with \<^verbatim>\<open>fake = 0.07\<close> and \<^verbatim>\<open>real = 0.57\<close> the scores
  are \<open>7 + 1 / 2 ^ 50\<close> (printed \<^verbatim>\<open>7.000000000000001\<close>) and \<open>57 - 1 / 2 ^ 47\<close>
  (printed \<^verbatim>\<open>56.99999999999999\<close>), neither 7 and 57 nor 100 times the doubles of 0.07
  and 0.57.
\<close>

theorem scores_not_exact_products_counterexample:
  "analyze_ai_blocks
     [(''ai'', JDict [(''blocks'', JList
        [JDict [(''text'', JStr ''a''),
                (''result'', JDict [(''fake'', JFloat (7 / 100)), (''real'', JFloat (57 / 100))])]])])]
   = Inr [(Some (JStr ''a''), JFloat (double (7 / 100) * 100), JFloat (double (57 / 100) * 100))] \<and>
   num_val (JFloat (double (7 / 100) * 100)) = Some (7 + 1 / 2 ^ 50) \<and>
   num_val (JFloat (double (7 / 100) * 100)) \<noteq> Some 7 \<and>
   num_val (JFloat (double (7 / 100) * 100)) \<noteq> Some (double (7 / 100) * 100) \<and>
   num_val (JFloat (double (57 / 100) * 100)) = Some (57 - 1 / 2 ^ 47) \<and>
   num_val (JFloat (double (57 / 100) * 100)) \<noteq> Some 57 \<and>
   num_val (JFloat (double (57 / 100) * 100)) \<noteq> Some (double (57 / 100) * 100)"
proof -
  have d: "double (7 / 100) = 1261007895663739 / 2 ^ 54" "double (57 / 100) = 5134103575202365 / 2 ^ 53"
    by code_simp+
  have a: "analyze_ai_blocks
     [(''ai'', JDict [(''blocks'', JList
        [JDict [(''text'', JStr ''a''),
                (''result'', JDict [(''fake'', JFloat (7 / 100)), (''real'', JFloat (57 / 100))])]])])]
   = Inr [(Some (JStr ''a''), JFloat (double (7 / 100) * 100), JFloat (double (57 / 100) * 100))]"
    by (simp add: analyze_ai_blocks_def dict_get_def column_def has_key_def score_of_def
        frame_column_def)
  have n: "num_val (JFloat (double (7 / 100) * 100)) = Some (7 + 1 / 2 ^ 50)"
    "num_val (JFloat (double (57 / 100) * 100)) = Some (57 - 1 / 2 ^ 47)"
    using product_7 product_57 by simp_all
  have e: "(7 + 1 / 2 ^ 50 :: rat) \<noteq> 7" "(57 - 1 / 2 ^ 47 :: rat) \<noteq> 57"
    "(7 + 1 / 2 ^ 50 :: rat) \<noteq> 1261007895663739 / 2 ^ 54 * 100"
    "(57 - 1 / 2 ^ 47 :: rat) \<noteq> 5134103575202365 / 2 ^ 53 * 100"
    by simp_all
  from a n e show ?thesis
    unfolding d by simp
qed

text \<open>
  Claim C6, amended. For a list of text blocks (a text and \<^verbatim>\<open>result.fake\<close>,
  \<^verbatim>\<open>result.real\<close> numbers from 0 to 1, as the data model has them),
  \<^verbatim>\<open>analyze_ai_blocks\<close> produces one row per block, in block order; the row of a block
  holds its text, \<^verbatim>\<open>ai_score = fake * 100\<close> and \<^verbatim>\<open>human_score = real * 100\<close>, the
  products being floating-point products: the double nearest to the product. Both
  scores are in \<open>[0, 100]\<close>, and \<^verbatim>\<open>fake = 0.5\<close> gives \<^verbatim>\<open>ai_score = 50\<close>.
\<close>

theorem per_block_scores:
  assumes "dict_get data ''ai'' JNull = JDict ai" "ai \<noteq> []"
    and "dict_get ai ''blocks'' JNull = JList blocks"
    and "list_all text_block blocks"
  shows "\<exists>rows.
           analyze_ai_blocks data = Inr rows \<and> length rows = length blocks \<and>
           (\<forall>i < length blocks. \<forall>f r.
              block_fake (blocks ! i) = Some f \<longrightarrow> block_real (blocks ! i) = Some r \<longrightarrow>
              (\<exists>a h. rows ! i = (block_text (blocks ! i), a, h) \<and>
                 num_val a = Some (double (f * 100)) \<and> num_val h = Some (double (r * 100)) \<and>
                 0 \<le> double (f * 100) \<and> double (f * 100) \<le> 100 \<and>
                 0 \<le> double (r * 100) \<and> double (r * 100) \<le> 100 \<and>
                 (f = 1 / 2 \<longrightarrow> num_val a = Some 50)))"
proof -
  from analyze_ai_blocks_wellformed [OF assms] obtain as hs where
    r: "analyze_ai_blocks data = Inr (zip (map block_text blocks) (zip as hs))"
    and a: "list_all2 (\<lambda>b a. num_val a = Some (double (the (block_fake b) * 100))) blocks as"
    and h: "list_all2 (\<lambda>b h. num_val h = Some (double (the (block_real b) * 100))) blocks hs"
    by blast
  let ?rows = "zip (map block_text blocks) (zip as hs)"
  from a h have l: "length as = length blocks" "length hs = length blocks"
    using list_all2_lengthD by fastforce+
  then have n: "length ?rows = length blocks"
    by simp
  have "\<exists>a h. ?rows ! i = (block_text (blocks ! i), a, h) \<and>
                 num_val a = Some (double (f * 100)) \<and> num_val h = Some (double (r * 100)) \<and>
                 0 \<le> double (f * 100) \<and> double (f * 100) \<le> 100 \<and>
                 0 \<le> double (r * 100) \<and> double (r * 100) \<le> 100 \<and>
                 (f = 1 / 2 \<longrightarrow> num_val a = Some 50)"
    if i: "i < length blocks" and f: "block_fake (blocks ! i) = Some f"
      and r: "block_real (blocks ! i) = Some r" for i f r
  proof -
    from i l have e: "?rows ! i = (block_text (blocks ! i), as ! i, hs ! i)"
      by simp
    from a i f have 1: "num_val (as ! i) = Some (double (f * 100))"
      by (auto simp: list_all2_conv_all_nth)
    from h i r have 2: "num_val (hs ! i) = Some (double (r * 100))"
      by (auto simp: list_all2_conv_all_nth)
    from assms(4) i have t: "text_block (blocks ! i)"
      by (simp add: list_all_length)
    from text_block_fake [OF t] f have 3: "0 \<le> double (f * 100) \<and> double (f * 100) \<le> 100"
      using double_percent_bounds by auto
    from text_block_real [OF t] r have 4: "0 \<le> double (r * 100) \<and> double (r * 100) \<le> 100"
      using double_percent_bounds by auto
    have 5: "f = 1 / 2 \<longrightarrow> num_val (as ! i) = Some 50"
    proof
      assume "f = 1 / 2"
      then have "f * 100 = 50"
        by simp
      with 1 show "num_val (as ! i) = Some 50"
        by (simp only: double_50)
    qed
    from e 1 2 3 4 5 show ?thesis
      by blast
  qed
  with r n show ?thesis
    by blast
qed

theorem per_block_scores_witness:
  "list_all text_block
     [JDict [(''text'', JStr ''a''), (''result'', JDict [(''fake'', JFloat (1 / 2)), (''real'', JFloat (1 / 2))])],
      JDict [(''text'', JStr ''b''), (''result'', JDict [(''fake'', JInt 1), (''real'', JInt 0)])]] \<and>
   analyze_ai_blocks
     [(''ai'', JDict [(''blocks'', JList
        [JDict [(''text'', JStr ''a''), (''result'', JDict [(''fake'', JFloat (1 / 2)), (''real'', JFloat (1 / 2))])],
         JDict [(''text'', JStr ''b''), (''result'', JDict [(''fake'', JInt 1), (''real'', JInt 0)])]])])]
   = Inr [(Some (JStr ''a''), JFloat 50, JFloat 50), (Some (JStr ''b''), JFloat 100, JFloat 0)] \<and>
   length [(Some (JStr ''a''), JFloat 50, JFloat 50), (Some (JStr ''b''), JFloat 100, JFloat 0)] = 2"
proof -
  let ?b1 = "JDict [(''text'', JStr ''a''), (''result'', JDict [(''fake'', JFloat (1 / 2)), (''real'', JFloat (1 / 2))])]"
  let ?b2 = "JDict [(''text'', JStr ''b''), (''result'', JDict [(''fake'', JInt 1), (''real'', JInt 0)])]"
  let ?ai = "[(''blocks'', JList [?b1, ?b2])]"
  let ?d = "[(''ai'', JDict ?ai)]"
  have h: "dict_get ?d ''ai'' JNull = JDict ?ai" "?ai \<noteq> []"
    "dict_get ?ai ''blocks'' JNull = JList [?b1, ?b2]"
    by (simp_all add: dict_get_def)
  have w: "list_all text_block [?b1, ?b2]"
    by (simp add: text_block_def probability_def block_text_def block_fake_def block_real_def
        dict_get_def double_half del: not_None_eq)
  have v: "analyze_ai_blocks ?d =
      Inr [(Some (JStr ''a''), JFloat 50, JFloat 50), (Some (JStr ''b''), JFloat 100, JFloat 0)]"
    by (simp add: analyze_ai_blocks_def dict_get_def column_def has_key_def score_of_def
        frame_column_def double_half)
  from per_block_scores [OF h w] obtain rows where
    "analyze_ai_blocks ?d = Inr rows" "length rows = length [?b1, ?b2]"
    by blast
  with v w show ?thesis
    by simp
qed

subsection \<open>The rolling timeline\<close>

lemma upt_window_split:
  assumes "0 < w"
  shows "[k - w ..< k] = [k - w ..< Suc k - w] @ [Suc k - w ..< k]"
proof -
  have "k - w \<le> Suc k - w" "Suc k - w \<le> k"
    using assms by auto
  then show ?thesis
    by (metis le_Suc_ex upt_add_eq_append)
qed

lemma roll_invariant:
  assumes "0 < w" "k \<le> length vs"
  shows "fold (roll_step w 1 vs) [0 ..< k] (0, 0, []) =
           (sum_list (map (\<lambda>j. vs ! j) [k - w ..< k]), length [k - w ..< k],
            map (\<lambda>i. Some (window_mean w vs i)) [0 ..< k])"
  using assms(2)
proof (induction k)
  case 0
  then show ?case by simp
next
  case (Suc k)
  then have IH: "fold (roll_step w 1 vs) [0 ..< k] (0, 0, []) =
           (sum_list (map (\<lambda>j. vs ! j) [k - w ..< k]), length [k - w ..< k],
            map (\<lambda>i. Some (window_mean w vs i)) [0 ..< k])"
    by simp
  let ?rem = "map (\<lambda>j. vs ! j) [k - w ..< Suc k - w]"
  let ?keep = "map (\<lambda>j. vs ! j) [Suc k - w ..< k]"
  have old: "map (\<lambda>j. vs ! j) [k - w ..< k] = ?rem @ ?keep"
    using upt_window_split [OF assms(1), of k] by (simp only: map_append [symmetric])
  have new: "map (\<lambda>j. vs ! j) [Suc k - w ..< Suc k] = ?keep @ [vs ! k]"
    using assms(1) by simp
  have s: "sum_list (map (\<lambda>j. vs ! j) [k - w ..< k]) - sum_list ?rem + vs ! k
             = sum_list (map (\<lambda>j. vs ! j) [Suc k - w ..< Suc k])"
    unfolding old new by simp
  have n: "length [k - w ..< k] - length [k - w ..< Suc k - w] + 1 = length [Suc k - w ..< Suc k]"
    using assms(1) by auto
  have p: "0 < length [Suc k - w ..< Suc k]"
    using assms(1) by auto
  have "roll_step w 1 vs k (sum_list (map (\<lambda>j. vs ! j) [k - w ..< k]), length [k - w ..< k],
            map (\<lambda>i. Some (window_mean w vs i)) [0 ..< k])
        = (sum_list (map (\<lambda>j. vs ! j) [Suc k - w ..< Suc k]), length [Suc k - w ..< Suc k],
            map (\<lambda>i. Some (window_mean w vs i)) [0 ..< k] @ [Some (window_mean w vs k)])"
  proof -
    have g: "0 < n \<Longrightarrow> (1 \<le> n \<and> 0 < n) = True" for n :: nat
      by auto
    have c: "(1 \<le> length [Suc k - w ..< Suc k] \<and> 0 < length [Suc k - w ..< Suc k]) = True"
      by (rule g [OF p])
    show ?thesis
      unfolding roll_step_def Let_def prod.case length_map s n window_mean_def c if_True
      by (rule refl)
  qed
  then show ?case
    using IH by simp
qed

lemma rolling_mean_sma:
  assumes "0 < w"
  shows "rolling_mean w 1 vs = map Some (sma w vs)"
  using roll_invariant [OF assms, of "length vs" vs]
  by (simp add: rolling_mean_def sma_def comp_def)

lemma bool_cellD: "bool_cell c \<Longrightarrow> \<exists>b. c = Some (JBool b)"
  by (cases c rule: bool_cell.cases) simp_all

lemma list_cellD: "list_cell c \<Longrightarrow> \<exists>xs. c = Some (JList xs)"
  by (cases c rule: list_cell.cases) simp_all

lemma sentence_record_fields:
  assumes "sentence_record s"
  shows "\<exists>d h v l c. s = JDict d \<and> map_of d ''isHard'' = Some (JBool h) \<and>
           map_of d ''isVeryHard'' = Some (JBool v) \<and>
           map_of d ''wordsOver13Chars'' = Some (JList l) \<and>
           map_of d ''wordsOver4Syllables'' = Some (JList c)"
proof -
  from assms obtain d where d: "s = JDict d"
    by (cases s) (simp_all add: sentence_record_def)
  from assms have c: "bool_cell (map_of d ''isHard'')" "bool_cell (map_of d ''isVeryHard'')"
    "list_cell (map_of d ''wordsOver13Chars'')" "list_cell (map_of d ''wordsOver4Syllables'')"
    unfolding sentence_record_def d json.case by blast+
  from bool_cellD [OF c(1)] obtain h where h: "map_of d ''isHard'' = Some (JBool h)" ..
  from bool_cellD [OF c(2)] obtain v where v: "map_of d ''isVeryHard'' = Some (JBool v)" ..
  from list_cellD [OF c(3)] obtain l where l: "map_of d ''wordsOver13Chars'' = Some (JList l)" ..
  from list_cellD [OF c(4)] obtain w where w: "map_of d ''wordsOver4Syllables'' = Some (JList w)" ..
  from d h v l w show ?thesis
    by (intro exI conjI)
qed

lemma as_rows_sentences:
  assumes "list_all sentence_record ss"
  shows "as_rows (JList ss) = Some (map (\<lambda>x. the (as_dict x)) ss)"
proof -
  from assms have "list_all (\<lambda>x. as_dict x \<noteq> None) ss"
    by (auto simp: list_all_iff dest!: sentence_record_fields)
  then show ?thesis
    by simp
qed

lemma column_sentences:
  assumes "list_all sentence_record ss" "ss \<noteq> []"
    and "k \<in> {''isHard'', ''isVeryHard'', ''wordsOver13Chars'', ''wordsOver4Syllables''}"
  shows "column (map (\<lambda>x. the (as_dict x)) ss) k = Inr (map (\<lambda>s. map_of (the (as_dict s)) k) ss)"
proof -
  from assms(2) obtain s where s: "s \<in> set ss"
    by (cases ss) auto
  with assms(1) have "sentence_record s"
    by (simp add: list_all_iff)
  from sentence_record_fields [OF this] assms(3) have "has_key (the (as_dict s)) k"
    by (auto simp: has_key_def)
  with s have "list_ex (\<lambda>r. has_key r k) (map (\<lambda>x. the (as_dict x)) ss)"
    unfolding list_ex_iff by auto
  then show ?thesis
    by (simp add: column_def comp_def)
qed

lemma int_cells:
  assumes "list_all sentence_record ss" "k \<in> {''isHard'', ''isVeryHard''}"
  shows "rmap int_cell (map (\<lambda>s. map_of (the (as_dict s)) k) ss) = Inr (map (flag k) ss)"
  unfolding rmap_map
proof (rule rmap_total)
  fix s assume "s \<in> set ss"
  with assms(1) have "sentence_record s"
    by (simp add: list_all_iff)
  from sentence_record_fields [OF this] assms(2)
  show "int_cell (map_of (the (as_dict s)) k) = Inr (flag k s)"
    by (auto simp: flag_def field_truthy_def dict_get_def)
qed

lemma len_cells:
  assumes "list_all sentence_record ss" "k \<in> {''wordsOver13Chars'', ''wordsOver4Syllables''}"
  shows "rmap len_cell (map (\<lambda>s. map_of (the (as_dict s)) k) ss) = Inr (map (word_count k) ss)"
  unfolding rmap_map
proof (rule rmap_total)
  fix s assume "s \<in> set ss"
  with assms(1) have "sentence_record s"
    by (simp add: list_all_iff)
  from sentence_record_fields [OF this] assms(2)
  show "len_cell (map_of (the (as_dict s)) k) = Inr (word_count k s)"
    by (auto simp: word_count_def)
qed

lemma map2_complexity:
  "map2 (+) (map (flag ''isHard'') ss) (map (flag ''isVeryHard'') ss) = map sentence_complexity ss"
  by (induction ss) (simp_all add: sentence_complexity_def)

lemma timeline_wellformed:
  assumes "dict_get data ''readability'' JNull = JDict r" "r \<noteq> []"
    and "dict_get r ''sentences'' (JList []) = JList ss"
    and "list_all sentence_record ss" "ss \<noteq> []"
  shows "plot_readability_timeline data =
           Inr (Some \<lparr>complexity = rolling_mean 5 1 (map sentence_complexity ss),
                      long_words = rolling_mean 5 1 (map (word_count ''wordsOver13Chars'') ss),
                      complex_words = rolling_mean 5 1 (map (word_count ''wordsOver4Syllables'') ss)\<rparr>)"
proof -
  from assms(3,5) have m: "map_of r ''sentences'' = Some (JList ss)"
    by (auto simp: dict_get_def split: option.splits)
  then have g: "dict_get r ''sentences'' JNull = JList ss"
    by (simp add: dict_get_def)
  have c: "column (map (\<lambda>x. the (as_dict x)) ss) ''isHard''
             = Inr (map (\<lambda>s. map_of (the (as_dict s)) ''isHard'') ss)"
    "column (map (\<lambda>x. the (as_dict x)) ss) ''isVeryHard''
             = Inr (map (\<lambda>s. map_of (the (as_dict s)) ''isVeryHard'') ss)"
    "column (map (\<lambda>x. the (as_dict x)) ss) ''wordsOver13Chars''
             = Inr (map (\<lambda>s. map_of (the (as_dict s)) ''wordsOver13Chars'') ss)"
    "column (map (\<lambda>x. the (as_dict x)) ss) ''wordsOver4Syllables''
             = Inr (map (\<lambda>s. map_of (the (as_dict s)) ''wordsOver4Syllables'') ss)"
    by (rule column_sentences [OF assms(4,5)], simp)+
  have i: "rmap int_cell (map (\<lambda>s. map_of (the (as_dict s)) ''isHard'') ss) = Inr (map (flag ''isHard'') ss)"
    "rmap int_cell (map (\<lambda>s. map_of (the (as_dict s)) ''isVeryHard'') ss) = Inr (map (flag ''isVeryHard'') ss)"
    by (rule int_cells [OF assms(4)], simp)+
  have l: "rmap len_cell (map (\<lambda>s. map_of (the (as_dict s)) ''wordsOver13Chars'') ss)
             = Inr (map (word_count ''wordsOver13Chars'') ss)"
    "rmap len_cell (map (\<lambda>s. map_of (the (as_dict s)) ''wordsOver4Syllables'') ss)
             = Inr (map (word_count ''wordsOver4Syllables'') ss)"
    by (rule len_cells [OF assms(4)], simp)+
  have t: "truthy (JDict r)" "truthy (JList ss)"
    using assms(2,5) by simp_all
  have p: "py_get (JDict r) ''sentences'' JNull = Inr (JList ss)"
    "py_getitem (JDict r) ''sentences'' = Inr (JList ss)"
    using m g by simp_all
  show ?thesis
    unfolding plot_readability_timeline_def assms(1) Let_def
    by (simp only: t p rbind_Inr not_True_eq_False if_False as_rows_sentences [OF assms(4)]
        option.case c i l map2_complexity)
qed

lemma timeline_no_sentences:
  assumes "dict_get data ''readability'' JNull = JDict r" "r \<noteq> []"
    and "dict_get r ''sentences'' (JList []) = JList []"
  shows "plot_readability_timeline data = Inr None"
proof -
  from assms(3) have "\<not> truthy (dict_get r ''sentences'' JNull)"
    by (auto simp: dict_get_def split: option.splits)
  with assms(1,2) show ?thesis
    by (simp add: plot_readability_timeline_def)
qed

text \<open>
  Claim C5. For every list of sentence records, each of the three series of the
  timeline (complexity counted 0, 1 or 2, long words per sentence, complex words per
  sentence) is the simple moving average with window 5 over however many points are
  available, never NaN, with one point per sentence. With no sentences the function
  returns \<^verbatim>\<open>None\<close> without an error: there is no figure and so no point. The rolling
  mean itself keeps the length for every window size from 1 on, and is empty on the
  empty series.
\<close>

theorem rolling_timeline_is_moving_average:
  assumes "dict_get data ''readability'' JNull = JDict r" "r \<noteq> []"
    and "dict_get r ''sentences'' (JList []) = JList ss"
    and "list_all sentence_record ss"
  shows "(ss = [] \<longrightarrow> plot_readability_timeline data = Inr None) \<and>
         (ss \<noteq> [] \<longrightarrow>
            plot_readability_timeline data =
              Inr (Some \<lparr>complexity = map Some (sma 5 (map sentence_complexity ss)),
                         long_words = map Some (sma 5 (map (word_count ''wordsOver13Chars'') ss)),
                         complex_words = map Some (sma 5 (map (word_count ''wordsOver4Syllables'') ss))\<rparr>)) \<and>
         length (sma 5 (map sentence_complexity ss)) = length ss \<and>
         length (sma 5 (map (word_count ''wordsOver13Chars'') ss)) = length ss \<and>
         length (sma 5 (map (word_count ''wordsOver4Syllables'') ss)) = length ss \<and>
         (\<forall>w vs. 0 < w \<longrightarrow>
            rolling_mean w 1 vs = map Some (sma w vs) \<and> length (rolling_mean w 1 vs) = length vs) \<and>
         (\<forall>w. rolling_mean w 1 [] = [])"
proof -
  have rm: "rolling_mean 5 1 vs = map Some (sma 5 vs)" for vs
    by (rule rolling_mean_sma) simp
  have 1: "ss = [] \<longrightarrow> plot_readability_timeline data = Inr None"
  proof
    assume "ss = []"
    with assms(3) have "dict_get r ''sentences'' (JList []) = JList []"
      by simp
    then show "plot_readability_timeline data = Inr None"
      by (rule timeline_no_sentences [OF assms(1,2)])
  qed
  have 2: "ss \<noteq> [] \<longrightarrow>
            plot_readability_timeline data =
              Inr (Some \<lparr>complexity = map Some (sma 5 (map sentence_complexity ss)),
                         long_words = map Some (sma 5 (map (word_count ''wordsOver13Chars'') ss)),
                         complex_words = map Some (sma 5 (map (word_count ''wordsOver4Syllables'') ss))\<rparr>)"
  proof
    assume "ss \<noteq> []"
    from timeline_wellformed [OF assms this] show "plot_readability_timeline data =
              Inr (Some \<lparr>complexity = map Some (sma 5 (map sentence_complexity ss)),
                         long_words = map Some (sma 5 (map (word_count ''wordsOver13Chars'') ss)),
                         complex_words = map Some (sma 5 (map (word_count ''wordsOver4Syllables'') ss))\<rparr>)"
      unfolding rm .
  qed
  have 3: "length (sma w vs) = length vs" for w vs
    by (simp add: sma_def)
  have 4: "\<forall>w vs. 0 < w \<longrightarrow>
            rolling_mean w 1 vs = map Some (sma w vs) \<and> length (rolling_mean w 1 vs) = length vs"
  proof (intro allI impI)
    fix w :: nat and vs assume "0 < w"
    from rolling_mean_sma [OF this, of vs] 3 [of w vs]
    show "rolling_mean w 1 vs = map Some (sma w vs) \<and> length (rolling_mean w 1 vs) = length vs"
      by (simp only: length_map)
  qed
  have 5: "\<forall>w. rolling_mean w 1 [] = []"
    unfolding rolling_mean_def by simp
  have 6: "length (sma 5 (map f ss)) = length ss" for f :: "json \<Rightarrow> rat"
    by (simp add: 3)
  show ?thesis
    by (intro conjI) (rule 1 2 6 4 5)+
qed

theorem rolling_timeline_is_moving_average_witness:
  "list_all sentence_record
     [JDict [(''isHard'', JBool True), (''isVeryHard'', JBool False),
             (''wordsOver13Chars'', JList [JStr ''internationalization'']),
             (''wordsOver4Syllables'', JList [])],
      JDict [(''isHard'', JBool True), (''isVeryHard'', JBool True),
             (''wordsOver13Chars'', JList []), (''wordsOver4Syllables'', JList [])]] \<and>
   plot_readability_timeline
     [(''readability'', JDict [(''sentences'', JList
        [JDict [(''isHard'', JBool True), (''isVeryHard'', JBool False),
                (''wordsOver13Chars'', JList [JStr ''internationalization'']),
                (''wordsOver4Syllables'', JList [])],
         JDict [(''isHard'', JBool True), (''isVeryHard'', JBool True),
                (''wordsOver13Chars'', JList []), (''wordsOver4Syllables'', JList [])]])])]
   = Inr (Some \<lparr>complexity = [Some 1, Some (3 / 2)],
                  long_words = [Some 1, Some (1 / 2)],
                  complex_words = [Some 0, Some 0]\<rparr>)"
proof -
  let ?s1 = "JDict [(''isHard'', JBool True), (''isVeryHard'', JBool False),
             (''wordsOver13Chars'', JList [JStr ''internationalization'']),
             (''wordsOver4Syllables'', JList [])]"
  let ?s2 = "JDict [(''isHard'', JBool True), (''isVeryHard'', JBool True),
             (''wordsOver13Chars'', JList []), (''wordsOver4Syllables'', JList [])]"
  let ?r = "[(''sentences'', JList [?s1, ?s2])]"
  let ?d = "[(''readability'', JDict ?r)]"
  have h: "dict_get ?d ''readability'' JNull = JDict ?r" "?r \<noteq> []"
    "dict_get ?r ''sentences'' (JList []) = JList [?s1, ?s2]"
    by (simp_all add: dict_get_def)
  have w: "list_all sentence_record [?s1, ?s2]"
    by (simp add: sentence_record_def)
  have v: "map sentence_complexity [?s1, ?s2] = [1, 2]"
    "map (word_count ''wordsOver13Chars'') [?s1, ?s2] = [1, 0]"
    "map (word_count ''wordsOver4Syllables'') [?s1, ?s2] = [0, 0]"
    by (simp_all add: sentence_complexity_def flag_def field_truthy_def dict_get_def word_count_def)
  have s: "sma 5 [1, 2] = [1, 3 / 2]" "sma 5 [1, 0] = [1, 1 / 2]" "sma 5 [0, 0] = [0, 0]"
    by (simp_all add: sma_def window_mean_def Let_def)
  from rolling_timeline_is_moving_average [OF h w]
  have "plot_readability_timeline ?d =
              Inr (Some \<lparr>complexity = map Some (sma 5 (map sentence_complexity [?s1, ?s2])),
                         long_words = map Some (sma 5 (map (word_count ''wordsOver13Chars'') [?s1, ?s2])),
                         complex_words = map Some (sma 5 (map (word_count ''wordsOver4Syllables'') [?s1, ?s2]))\<rparr>)"
    by blast
  then have "plot_readability_timeline ?d = Inr (Some \<lparr>complexity = [Some 1, Some (3 / 2)],
                  long_words = [Some 1, Some (1 / 2)],
                  complex_words = [Some 0, Some 0]\<rparr>)"
    unfolding v s by simp
  with w show ?thesis
    by (rule conjI)
qed

subsection \<open>Documents with an \<^verbatim>\<open>error\<close> key\<close>














end
